theory Spec2Isabelle
  imports Complex_Main "HOL-Library.AList"
begin

section \<open>Values and the library functions the program calls\<close>

text \<open>
  The program resolves the fields of a caller's struct from four sources. A field holds a
  value of one of the five supported Go types, or of some other type. Go's \<open>float64\<close>
  and \<open>time.Time\<close> are left as the type parameters \<open>'f\<close> and \<open>'t\<close>: the
  program only produces such values through \<open>strconv.ParseFloat\<close> and
  \<open>time.Parse\<close>, compares floats with \<open>!=\<close> and writes the literals \<open>0.0\<close>
  and \<open>time.Time{}\<close>.
\<close>

datatype ('f, 't) val =
    VBool bool
  | VInt int
  | VFloat 'f
  | VString string
  | VTime 't
  | VOther string

text \<open>
  The functions of Go's standard library that are not written out below are parameters
  of the model, so every theorem holds whatever they compute:
  \<open>ParseFloat s\<close> is \<open>strconv.ParseFloat(s, 64)\<close> (\<open>None\<close> when it returns an error),
  \<open>float_neq\<close> is \<open>!=\<close> on \<open>float64\<close>, \<open>float_zero\<close> is \<open>0.0\<close>,
  \<open>time_Parse layout s\<close> is \<open>time.Parse(layout, s)\<close>, \<open>time_zero\<close> is \<open>time.Time{}\<close>,
  \<open>ParseInt0 s\<close> is \<open>strconv.ParseInt(s, 0, strconv.IntSize)\<close>, which the flag package
  uses for an int flag, and \<open>ToLower\<close> is \<open>strings.ToLower\<close>.
\<close>

record ('f, 't) golib =
  ParseFloat :: "string \<Rightarrow> 'f option"
  float_neq :: "'f \<Rightarrow> 'f \<Rightarrow> bool"
  float_zero :: 'f
  time_Parse :: "string \<Rightarrow> string \<Rightarrow> 't option"
  time_zero :: 't
  ParseInt0 :: "string \<Rightarrow> int option"
  ToLower :: "string \<Rightarrow> string"

text \<open>\<open>strconv.ParseBool\<close>: exactly twelve spellings are accepted.\<close>

definition ParseBool :: "string \<Rightarrow> bool option" where
  "ParseBool s =
     (if s \<in> set [''1'', ''t'', ''T'', ''TRUE'', ''true'', ''True''] then Some True
      else if s \<in> set [''0'', ''f'', ''F'', ''FALSE'', ''false'', ''False''] then Some False
      else None)"

text \<open>
  \<open>strconv.Atoi\<close>: an optional sign, then one or more decimal digits and nothing else;
  the value has to fit Go's \<open>int\<close> (64 bits).
\<close>

definition digit_of :: "char \<Rightarrow> nat option" where
  "digit_of c =
     (if c \<in> set ''0123456789'' then Some (of_char c - 48) else None)"

fun digits_value :: "nat \<Rightarrow> string \<Rightarrow> nat option" where
  "digits_value acc [] = Some acc"
| "digits_value acc (c # cs) =
     (case digit_of c of
        None \<Rightarrow> None
      | Some d \<Rightarrow> digits_value (acc * 10 + d) cs)"

definition Atoi :: "string \<Rightarrow> int option" where
  "Atoi s =
     (let neg = (s \<noteq> [] \<and> hd s = CHR ''-'');
          ds = (if s \<noteq> [] \<and> (hd s = CHR ''-'' \<or> hd s = CHR ''+'') then tl s else s)
      in if ds = [] then None
         else (case digits_value 0 ds of
                 None \<Rightarrow> None
               | Some n \<Rightarrow>
                   (let v = (if neg then - int n else int n)
                    in if - (2 ^ 63) \<le> v \<and> v < 2 ^ 63 then Some v else None)))"

text \<open>\<open>os.Getenv\<close>: the empty string for a variable that is not set.\<close>

definition Getenv :: "(string \<rightharpoonup> string) \<Rightarrow> string \<Rightarrow> string" where
  "Getenv environ name = (case environ name of None \<Rightarrow> [] | Some v \<Rightarrow> v)"

section \<open>The configuration struct\<close>

text \<open>
  What \<open>reflect\<close> shows of the struct passed to \<open>Behold\<close>: per field its name, whether
  it can be set (it is exported), its type, its tag as key/value pairs and its value.
\<close>

datatype gotype = GoBool | GoInt | GoFloat64 | GoString | GoTime | GoOther string

record ('f, 't) sfield =
  Name :: string
  CanSet :: bool
  Type :: gotype
  Tag :: "(string \<times> string) list"
  Value :: "('f, 't) val"

type_synonym ('f, 't) config = "('f, 't) sfield list"

definition Tag_Lookup :: "(string \<times> string) list \<Rightarrow> string \<Rightarrow> string option" where
  "Tag_Lookup tag key = map_of tag key"

definition Tag_Get :: "(string \<times> string) list \<Rightarrow> string \<Rightarrow> string" where
  "Tag_Get tag key = (case map_of tag key of None \<Rightarrow> [] | Some v \<Rightarrow> v)"

definition TagFlagName :: string where "TagFlagName = ''flag''"
definition TagEnvName :: string where "TagEnvName = ''env''"
definition TagDefaultValue :: string where "TagDefaultValue = ''default''"
definition TagDescription :: string where "TagDescription = ''description''"

section \<open>The process-wide flag set\<close>

text \<open>
  \<open>flag.CommandLine\<close>: the registered flags with their current values, and whether
  \<open>flag.Parse\<close> has run. A registered flag is addressed by its name; the pointer that
  \<open>flag.Bool\<close>, \<open>flag.Int\<close>, \<open>flag.Float64\<close> and \<open>flag.String\<close> return is modelled as
  that name.
\<close>

record ('f, 't) FlagSet =
  formal :: "(string \<times> ('f, 't) val) list"
  parsed :: bool

text \<open>
  How a run can stop before \<open>Behold\<close> returns: a panic, or the exit of the process that
  the flag package performs on a command line it rejects.
\<close>

datatype abort =
    PanicEnvFile
  | PanicFlagBeginsWithDash string
  | PanicFlagContainsEq string
  | PanicFlagRedefined string
  | PanicFieldIndex nat
  | ExitFlagNotDefined string
  | ExitFlagInvalidValue string string

text \<open>
  Registration (\<open>FlagSet.Var\<close>): a name must not begin with \<open>-\<close>, contain \<open>=\<close> or
  be registered already; each of these panics.
\<close>

definition flag_Var ::
  "('f, 't) FlagSet \<Rightarrow> string \<Rightarrow> ('f, 't) val \<Rightarrow> abort + ('f, 't) FlagSet" where
  "flag_Var fs name v =
     (if name \<noteq> [] \<and> hd name = CHR ''-'' then Inl (PanicFlagBeginsWithDash name)
      else if CHR ''='' \<in> set name then Inl (PanicFlagContainsEq name)
      else if map_of (formal fs) name \<noteq> None then Inl (PanicFlagRedefined name)
      else Inr (fs\<lparr>formal := formal fs @ [(name, v)]\<rparr>))"

text \<open>
  The command line after the program name. The token syntax of the flag package is not
  modelled: a flag argument is its name and the text given for it (\<open>true\<close> for a boolean
  flag written without a value), and parsing stops at the first argument that is not a flag.
\<close>

datatype cmdarg = FlagArg string string | Positional string

text \<open>The \<open>Set\<close> method of a flag's value: the text is parsed at the flag's type.\<close>

fun flag_Set :: "('f, 't) golib \<Rightarrow> ('f, 't) val \<Rightarrow> string \<Rightarrow> ('f, 't) val option" where
  "flag_Set L (VBool _) raw = map_option VBool (ParseBool raw)"
| "flag_Set L (VInt _) raw = map_option VInt (ParseInt0 L raw)"
| "flag_Set L (VFloat _) raw = map_option VFloat (ParseFloat L raw)"
| "flag_Set L (VString _) raw = Some (VString raw)"
| "flag_Set L (VTime _) raw = None"
| "flag_Set L (VOther _) raw = None"

fun parseArgs ::
  "('f, 't) golib \<Rightarrow> (string \<times> ('f, 't) val) list \<Rightarrow> cmdarg list
     \<Rightarrow> abort + (string \<times> ('f, 't) val) list" where
  "parseArgs L fm [] = Inr fm"
| "parseArgs L fm (Positional _ # _) = Inr fm"
| "parseArgs L fm (FlagArg name raw # rest) =
     (case map_of fm name of
        None \<Rightarrow> Inl (ExitFlagNotDefined name)
      | Some cur \<Rightarrow>
          (case flag_Set L cur raw of
             None \<Rightarrow> Inl (ExitFlagInvalidValue name raw)
           | Some v \<Rightarrow> parseArgs L (AList.update name v fm) rest))"

definition flag_Parse ::
  "('f, 't) golib \<Rightarrow> ('f, 't) FlagSet \<Rightarrow> cmdarg list \<Rightarrow> abort + ('f, 't) FlagSet" where
  "flag_Parse L fs args =
     (case parseArgs L (formal fs) args of
        Inl a \<Rightarrow> Inl a
      | Inr fm \<Rightarrow> Inr \<lparr>formal = fm, parsed = True\<rparr>)"

section \<open>Containers (container.go)\<close>

datatype error = ErrNoFlagName | ErrCantSet | ErrUnsupportedFieldType string

definition timeFormats :: "string list" where
  "timeFormats =
     [''2006-01-02'',
      ''2006-01-02 15:04:05'',
      ''2006-01-02T15:04:05'',
      ''2006-01-02T15:04:05Z'',
      ''2006-01-02T15:04:05 MST'',
      ''2006-01-02T15:04:05-0700'']"

text \<open>
  \<open>baseContainer\<close>. The reflection handles \<open>config\<close>, \<open>configValue\<close>, \<open>field\<close> and
  \<open>fieldValue\<close> all denote the field at \<open>fieldIndex\<close> of the caller's struct.
\<close>

record baseContainer =
  defaultValue :: string
  description :: string
  envFile :: "string \<rightharpoonup> string"
  envName :: string
  fieldName :: string
  fieldIndex :: nat
  flagName :: string

text \<open>
  The five container types. The second component is \<open>flagValue\<close>: \<open>None\<close> is the nil
  pointer, \<open>Some n\<close> points to the variable of the flag registered as \<open>n\<close>.
\<close>

datatype container =
    BoolContainer baseContainer "string option"
  | IntContainer baseContainer "string option"
  | Float64Container baseContainer "string option"
  | StringContainer baseContainer "string option"
  | TimeContainer baseContainer "string option"

fun base :: "container \<Rightarrow> baseContainer" where
  "base (BoolContainer b _) = b"
| "base (IntContainer b _) = b"
| "base (Float64Container b _) = b"
| "base (StringContainer b _) = b"
| "base (TimeContainer b _) = b"

fun flagValue :: "container \<Rightarrow> string option" where
  "flagValue (BoolContainer _ p) = p"
| "flagValue (IntContainer _ p) = p"
| "flagValue (Float64Container _ p) = p"
| "flagValue (StringContainer _ p) = p"
| "flagValue (TimeContainer _ p) = p"

definition newBaseContainer ::
  "('f, 't) config \<Rightarrow> nat \<Rightarrow> (string \<rightharpoonup> string) \<Rightarrow> abort + (error + baseContainer)" where
  "newBaseContainer config index ef =
     (if length config \<le> index then Inl (PanicFieldIndex index)
      else if \<not> CanSet (config ! index) then Inr (Inl ErrCantSet)
      else (case Tag_Lookup (Tag (config ! index)) TagFlagName of
              None \<Rightarrow> Inr (Inl ErrNoFlagName)
            | Some fl \<Rightarrow>
                Inr (Inr \<lparr>defaultValue = Tag_Get (Tag (config ! index)) TagDefaultValue,
                          description = Tag_Get (Tag (config ! index)) TagDescription,
                          envFile = ef,
                          envName = Tag_Get (Tag (config ! index)) TagEnvName,
                          fieldName = Name (config ! index),
                          fieldIndex = index,
                          flagName = fl\<rparr>)))"

fun parseTime_loop :: "('f, 't) golib \<Rightarrow> string list \<Rightarrow> string \<Rightarrow> 't" where
  "parseTime_loop L [] v = time_zero L"
| "parseTime_loop L (f # fs) v =
     (case time_Parse L f v of
        Some t \<Rightarrow> t
      | None \<Rightarrow> parseTime_loop L fs v)"

definition parseTime :: "('f, 't) golib \<Rightarrow> string \<Rightarrow> 't" where
  "parseTime L v = parseTime_loop L timeFormats v"

fun isTime_loop :: "('f, 't) golib \<Rightarrow> string list \<Rightarrow> string \<Rightarrow> bool" where
  "isTime_loop L [] v = False"
| "isTime_loop L (f # fs) v =
     (case time_Parse L f v of
        Some t \<Rightarrow> True
      | None \<Rightarrow> isTime_loop L fs v)"

definition isTime :: "('f, 't) golib \<Rightarrow> string \<Rightarrow> bool" where
  "isTime L v = isTime_loop L timeFormats v"

fun GetDefaultValue :: "('f, 't) golib \<Rightarrow> container \<Rightarrow> ('f, 't) val" where
  "GetDefaultValue L (BoolContainer b p) =
     (case ParseBool (defaultValue b) of Some r \<Rightarrow> VBool r | None \<Rightarrow> VBool False)"
| "GetDefaultValue L (IntContainer b p) =
     (case Atoi (defaultValue b) of Some r \<Rightarrow> VInt r | None \<Rightarrow> VInt 0)"
| "GetDefaultValue L (Float64Container b p) =
     (case ParseFloat L (defaultValue b) of Some r \<Rightarrow> VFloat r | None \<Rightarrow> VFloat (float_zero L))"
| "GetDefaultValue L (StringContainer b p) = VString (defaultValue b)"
| "GetDefaultValue L (TimeContainer b p) =
     (if \<not> isTime L (defaultValue b) then VTime (time_zero L)
      else VTime (parseTime L (defaultValue b)))"

fun GetEnvValue ::
  "('f, 't) golib \<Rightarrow> (string \<rightharpoonup> string) \<Rightarrow> container \<Rightarrow> ('f, 't) val \<times> bool" where
  "GetEnvValue L environ (BoolContainer b p) =
     (let v = Getenv environ (envName b)
      in if v \<noteq> [] then
           (case ParseBool v of Some r \<Rightarrow> (VBool r, True) | None \<Rightarrow> (VBool False, False))
         else (VBool False, False))"
| "GetEnvValue L environ (IntContainer b p) =
     (let v = Getenv environ (envName b)
      in if v \<noteq> [] then
           (case Atoi v of Some r \<Rightarrow> (VInt r, True) | None \<Rightarrow> (VInt 0, False))
         else (VInt 0, False))"
| "GetEnvValue L environ (Float64Container b p) =
     (let v = Getenv environ (envName b)
      in if v \<noteq> [] then
           (case ParseFloat L v of
              Some r \<Rightarrow> (VFloat r, True)
            | None \<Rightarrow> (VFloat (float_zero L), False))
         else (VFloat (float_zero L), False))"
| "GetEnvValue L environ (StringContainer b p) =
     (let v = Getenv environ (envName b)
      in if v \<noteq> [] then (VString v, True) else (VString [], False))"
| "GetEnvValue L environ (TimeContainer b p) =
     (let v = Getenv environ (envName b)
      in if v \<noteq> [] then (VTime (parseTime L v), True) else (VTime (time_zero L), False))"

fun GetEnvFileValue :: "('f, 't) golib \<Rightarrow> container \<Rightarrow> ('f, 't) val \<times> bool" where
  "GetEnvFileValue L (BoolContainer b p) =
     (case envFile b (envName b) of
        Some v \<Rightarrow>
          (case ParseBool v of Some r \<Rightarrow> (VBool r, True) | None \<Rightarrow> (VBool False, False))
      | None \<Rightarrow> (VBool False, False))"
| "GetEnvFileValue L (IntContainer b p) =
     (case envFile b (envName b) of
        Some v \<Rightarrow>
          (case Atoi v of Some r \<Rightarrow> (VInt r, True) | None \<Rightarrow> (VInt 0, False))
      | None \<Rightarrow> (VInt 0, False))"
| "GetEnvFileValue L (Float64Container b p) =
     (case envFile b (envName b) of
        Some v \<Rightarrow>
          (case ParseFloat L v of
             Some r \<Rightarrow> (VFloat r, True)
           | None \<Rightarrow> (VFloat (float_zero L), False))
      | None \<Rightarrow> (VFloat (float_zero L), False))"
| "GetEnvFileValue L (StringContainer b p) =
     (case envFile b (envName b) of
        Some v \<Rightarrow> (VString v, True)
      | None \<Rightarrow> (VString [], False))"
| "GetEnvFileValue L (TimeContainer b p) =
     (case envFile b (envName b) of
        Some v \<Rightarrow> (VTime (parseTime L v), True)
      | None \<Rightarrow> (VTime (time_zero L), False))"

text \<open>
  Reading through the \<open>flagValue\<close> pointer. A pointer obtained from a registration always
  finds its flag, of the type it was registered with; the other cases give the zero value.
\<close>

definition deref :: "('f, 't) FlagSet \<Rightarrow> string \<Rightarrow> ('f, 't) val option" where
  "deref fs n = map_of (formal fs) n"

fun GetFlagValue ::
  "('f, 't) golib \<Rightarrow> ('f, 't) FlagSet \<Rightarrow> container \<Rightarrow> ('f, 't) val \<times> bool" where
  "GetFlagValue L fs (BoolContainer b p) =
     (case p of
        None \<Rightarrow> (VBool False, False)
      | Some n \<Rightarrow>
          (case deref fs n of
             Some (VBool x) \<Rightarrow>
               if VBool x \<noteq> GetDefaultValue L (BoolContainer b p) then (VBool x, True)
               else (VBool False, False)
           | _ \<Rightarrow> (VBool False, False)))"
| "GetFlagValue L fs (IntContainer b p) =
     (case p of
        None \<Rightarrow> (VInt 0, False)
      | Some n \<Rightarrow>
          (case deref fs n of
             Some (VInt x) \<Rightarrow>
               if VInt x \<noteq> GetDefaultValue L (IntContainer b p) then (VInt x, True)
               else (VInt 0, False)
           | _ \<Rightarrow> (VInt 0, False)))"
| "GetFlagValue L fs (Float64Container b p) =
     (case p of
        None \<Rightarrow> (VFloat (float_zero L), False)
      | Some n \<Rightarrow>
          (case (deref fs n, GetDefaultValue L (Float64Container b p)) of
             (Some (VFloat x), VFloat d) \<Rightarrow>
               if float_neq L x d then (VFloat x, True)
               else (VFloat (float_zero L), False)
           | _ \<Rightarrow> (VFloat (float_zero L), False)))"
| "GetFlagValue L fs (StringContainer b p) =
     (case p of
        None \<Rightarrow> (VString [], False)
      | Some n \<Rightarrow>
          (case deref fs n of
             Some (VString x) \<Rightarrow>
               if VString x \<noteq> GetDefaultValue L (StringContainer b p) then (VString x, True)
               else (VString [], False)
           | _ \<Rightarrow> (VString [], False)))"
| "GetFlagValue L fs (TimeContainer b p) =
     (case p of
        None \<Rightarrow> (VTime (time_zero L), False)
      | Some n \<Rightarrow>
          (case deref fs n of
             Some (VString x) \<Rightarrow>
               if x \<noteq> defaultValue b then (VTime (parseTime L x), True)
               else (VTime (time_zero L), False)
           | _ \<Rightarrow> (VTime (time_zero L), False)))"

text \<open>\<open>SetConfigValue\<close> writes through \<open>fieldValue\<close> into the caller's struct.\<close>

definition SetConfigValue ::
  "container \<Rightarrow> ('f, 't) val \<Rightarrow> ('f, 't) config \<Rightarrow> ('f, 't) config" where
  "SetConfigValue c v config =
     config[fieldIndex (base c) := (config ! fieldIndex (base c))\<lparr>Value := v\<rparr>]"

text \<open>
  The five constructors share their shape: build the base container, register the flag
  unless flags are already parsed, write the default into the field. \<open>newContainer\<close> is
  that shape; \<open>mk\<close> is the container type and \<open>flagDefault\<close> the default the flag is
  registered with.
\<close>

definition newContainer ::
  "(baseContainer \<Rightarrow> string option \<Rightarrow> container) \<Rightarrow> (container \<Rightarrow> ('f, 't) val)
     \<Rightarrow> ('f, 't) golib \<Rightarrow> ('f, 't) FlagSet \<Rightarrow> ('f, 't) config \<Rightarrow> nat \<Rightarrow> (string \<rightharpoonup> string)
     \<Rightarrow> abort + ((error + container) \<times> ('f, 't) FlagSet \<times> ('f, 't) config)" where
  "newContainer mk flagDefault L fs config index ef =
     (case newBaseContainer config index ef of
        Inl a \<Rightarrow> Inl a
      | Inr (Inl err) \<Rightarrow> Inr (Inl err, fs, config)
      | Inr (Inr b) \<Rightarrow>
          (if \<not> parsed fs then
             (case flag_Var fs (flagName b) (flagDefault (mk b None)) of
                Inl a \<Rightarrow> Inl a
              | Inr fs' \<Rightarrow>
                  Inr (Inr (mk b (Some (flagName b))), fs',
                       SetConfigValue (mk b (Some (flagName b)))
                         (GetDefaultValue L (mk b (Some (flagName b)))) config))
           else
             Inr (Inr (mk b None), fs,
                  SetConfigValue (mk b None) (GetDefaultValue L (mk b None)) config)))"

definition NewBool where
  "NewBool L = newContainer BoolContainer (GetDefaultValue L) L"

definition NewInt where
  "NewInt L = newContainer IntContainer (GetDefaultValue L) L"

definition NewFloat64 where
  "NewFloat64 L = newContainer Float64Container (GetDefaultValue L) L"

definition NewString where
  "NewString L = newContainer StringContainer (GetDefaultValue L) L"

definition NewTime where
  "NewTime L = newContainer TimeContainer (\<lambda>c. VString (defaultValue (base c))) L"

definition type_String :: "gotype \<Rightarrow> string" where
  "type_String t =
     (case t of
        GoBool \<Rightarrow> ''bool''
      | GoInt \<Rightarrow> ''int''
      | GoFloat64 \<Rightarrow> ''float64''
      | GoString \<Rightarrow> ''string''
      | GoTime \<Rightarrow> ''time.Time''
      | GoOther n \<Rightarrow> n)"

text \<open>
  \<open>New\<close> switches on the lower-cased name of the field's type. The five names it knows
  are those of the five supported types, so the model switches on the type itself.
\<close>

definition New ::
  "('f, 't) golib \<Rightarrow> ('f, 't) FlagSet \<Rightarrow> ('f, 't) config \<Rightarrow> nat \<Rightarrow> (string \<rightharpoonup> string)
     \<Rightarrow> abort + ((error + container) \<times> ('f, 't) FlagSet \<times> ('f, 't) config)" where
  "New L fs config index ef =
     (if length config \<le> index then Inl (PanicFieldIndex index)
      else (case Type (config ! index) of
              GoBool \<Rightarrow> NewBool L fs config index ef
            | GoInt \<Rightarrow> NewInt L fs config index ef
            | GoFloat64 \<Rightarrow> NewFloat64 L fs config index ef
            | GoString \<Rightarrow> NewString L fs config index ef
            | GoTime \<Rightarrow> NewTime L fs config index ef
            | GoOther n \<Rightarrow>
                Inr (Inl (ErrUnsupportedFieldType
                            (''unsupported field type: '' @ ToLower L (type_String (GoOther n)))),
                     fs, config)))"

section \<open>The resolution pass (configinator.go)\<close>

definition applyValueWithPrecedence ::
  "('f, 't) golib \<Rightarrow> (string \<rightharpoonup> string) \<Rightarrow> ('f, 't) FlagSet \<Rightarrow> container
     \<Rightarrow> ('f, 't) config \<Rightarrow> ('f, 't) config" where
  "applyValueWithPrecedence L environ fs c config =
     (let config1 = (case GetEnvValue L environ c of
                       (v, ok) \<Rightarrow> if ok then SetConfigValue c v config else config);
          config2 = (case GetEnvFileValue L c of
                       (v, ok) \<Rightarrow> if ok then SetConfigValue c v config1 else config1);
          config3 = (case GetFlagValue L fs c of
                       (v, ok) \<Rightarrow> if ok then SetConfigValue c v config2 else config2)
      in config3)"

text \<open>
  The local file \<open>.env\<close> as \<open>Behold\<close> meets it: absent, present but unreadable, or read
  into a mapping (the reader is the package \<open>env\<close>).
\<close>

datatype dotenv = NoEnvFile | UnreadableEnvFile | EnvFile "string \<rightharpoonup> string"

text \<open>The first loop of \<open>Behold\<close>: one container per field; the error of \<open>New\<close> is dropped.\<close>

fun newContainers ::
  "('f, 't) golib \<Rightarrow> (string \<rightharpoonup> string) \<Rightarrow> nat list \<Rightarrow> ('f, 't) FlagSet \<Rightarrow> ('f, 't) config
     \<Rightarrow> abort + (container option list \<times> ('f, 't) FlagSet \<times> ('f, 't) config)" where
  "newContainers L ef [] fs config = Inr ([], fs, config)"
| "newContainers L ef (index # rest) fs config =
     (case New L fs config index ef of
        Inl a \<Rightarrow> Inl a
      | Inr (r, fs', config') \<Rightarrow>
          (case newContainers L ef rest fs' config' of
             Inl a \<Rightarrow> Inl a
           | Inr (cs, fs'', config'') \<Rightarrow>
               Inr ((case r of Inl err \<Rightarrow> None | Inr c \<Rightarrow> Some c) # cs, fs'', config'')))"

text \<open>The second loop: a nil container matches no case of the type switch.\<close>

fun applyContainers ::
  "('f, 't) golib \<Rightarrow> (string \<rightharpoonup> string) \<Rightarrow> ('f, 't) FlagSet \<Rightarrow> container option list
     \<Rightarrow> ('f, 't) config \<Rightarrow> ('f, 't) config" where
  "applyContainers L environ fs [] config = config"
| "applyContainers L environ fs (c # cs) config =
     applyContainers L environ fs cs
       (case c of
          None \<Rightarrow> config
        | Some tc \<Rightarrow> applyValueWithPrecedence L environ fs tc config)"

text \<open>
  \<open>Behold\<close>, from the process environment, the \<open>.env\<close> file, the command line after the
  program name, the flag set as it is when the call starts and the caller's struct; it
  gives the flag set and the struct as they are when the call returns.
\<close>

definition Behold ::
  "('f, 't) golib \<Rightarrow> (string \<rightharpoonup> string) \<Rightarrow> dotenv \<Rightarrow> cmdarg list \<Rightarrow> ('f, 't) FlagSet
     \<Rightarrow> ('f, 't) config \<Rightarrow> abort + (('f, 't) FlagSet \<times> ('f, 't) config)" where
  "Behold L environ dot args fs config =
     (case dot of
        UnreadableEnvFile \<Rightarrow> Inl PanicEnvFile
      | _ \<Rightarrow>
        (let ef = (case dot of EnvFile m \<Rightarrow> m | _ \<Rightarrow> Map.empty)
         in case newContainers L ef [0..<length config] fs config of
              Inl a \<Rightarrow> Inl a
            | Inr (containers, fs1, config1) \<Rightarrow>
                (case (if args \<noteq> [] \<and> \<not> parsed fs1 then flag_Parse L fs1 args else Inr fs1) of
                   Inl a \<Rightarrow> Inl a
                 | Inr fs2 \<Rightarrow> Inr (fs2, applyContainers L environ fs2 containers config1))))"

section \<open>Notions used to state the properties\<close>

text \<open>
  The precedence rule in the words of the specification: the flag value if present,
  otherwise the env-file value if present, otherwise the environment value if present,
  otherwise the default. Each source is a value with its presence indicator.
\<close>

definition precedence :: "'v \<times> bool \<Rightarrow> 'v \<times> bool \<Rightarrow> 'v \<times> bool \<Rightarrow> 'v \<Rightarrow> 'v" where
  "precedence flagv filev envv dflt =
     (if snd flagv then fst flagv
      else if snd filev then fst filev
      else if snd envv then fst envv
      else dflt)"

text \<open>The names of the flags given on a command line (those the flag package reaches).\<close>

fun suppliedFlags :: "cmdarg list \<Rightarrow> string list" where
  "suppliedFlags [] = []"
| "suppliedFlags (Positional _ # _) = []"
| "suppliedFlags (FlagArg name raw # rest) = name # suppliedFlags rest"

text \<open>The mapping \<open>Behold\<close> hands to the containers for a given \<open>.env\<close> file.\<close>

definition envFileOf :: "dotenv \<Rightarrow> (string \<rightharpoonup> string)" where
  "envFileOf dot = (case dot of EnvFile m \<Rightarrow> m | _ \<Rightarrow> Map.empty)"

text \<open>A field type is supported when \<open>New\<close> has a case for it.\<close>

definition supported :: "gotype \<Rightarrow> bool" where
  "supported t = (case t of GoOther n \<Rightarrow> False | _ \<Rightarrow> True)"

text \<open>
  The container that the first loop of \<open>Behold\<close> stores for field \<open>index\<close>, read off the
  declaration of the field and the \<open>parsed\<close> state of the flag set: \<open>None\<close> where \<open>New\<close>
  returns an error.
\<close>

definition containerFor ::
  "('f, 't) FlagSet \<Rightarrow> ('f, 't) config \<Rightarrow> nat \<Rightarrow> (string \<rightharpoonup> string) \<Rightarrow> container option" where
  "containerFor fs config index ef =
     (case newBaseContainer config index ef of
        Inr (Inr b) \<Rightarrow>
          (let p = (if parsed fs then None else Some (flagName b))
           in case Type (config ! index) of
                GoBool \<Rightarrow> Some (BoolContainer b p)
              | GoInt \<Rightarrow> Some (IntContainer b p)
              | GoFloat64 \<Rightarrow> Some (Float64Container b p)
              | GoString \<Rightarrow> Some (StringContainer b p)
              | GoTime \<Rightarrow> Some (TimeContainer b p)
              | GoOther n \<Rightarrow> None)
      | _ \<Rightarrow> None)"

text \<open>The value a container registers its flag with.\<close>

fun registeredDefault :: "('f, 't) golib \<Rightarrow> container \<Rightarrow> ('f, 't) val" where
  "registeredDefault L (TimeContainer b p) = VString (defaultValue b)"
| "registeredDefault L c = GetDefaultValue L c"

text \<open>A container with its \<open>flagValue\<close> pointer replaced.\<close>

fun setFlagValue :: "string option \<Rightarrow> container \<Rightarrow> container" where
  "setFlagValue q (BoolContainer b p) = BoolContainer b q"
| "setFlagValue q (IntContainer b p) = IntContainer b q"
| "setFlagValue q (Float64Container b p) = Float64Container b q"
| "setFlagValue q (StringContainer b p) = StringContainer b q"
| "setFlagValue q (TimeContainer b p) = TimeContainer b q"

text \<open>The declaration of a field: everything but the value it holds.\<close>

definition decl :: "('f, 't) sfield \<Rightarrow> string \<times> bool \<times> gotype \<times> (string \<times> string) list" where
  "decl f = (Name f, CanSet f, Type f, Tag f)"

section \<open>A concrete library for running the model\<close>

text \<open>
  To evaluate the model at concrete inputs the library parameters are instantiated.
  The instance covers plain decimal numerals and the six layouts of \<open>timeFormats\<close> with
  digits-only fields; on the strings used below it agrees with Go. It stands for floats
  by exact decimal fractions and for times by their calendar fields and zone offset.
\<close>

datatype gtime = GTime nat nat nat nat nat nat int

datatype tok = TYear | TMonth | TDay | THour | TMinute | TSecond | TZone | TOffset | TLit char

definition take_number :: "nat \<Rightarrow> string \<Rightarrow> (nat \<times> string) option" where
  "take_number n s =
     (if length s < n then None
      else (case digits_value 0 (take n s) of
              None \<Rightarrow> None
            | Some v \<Rightarrow> Some (v, drop n s)))"

definition set_field :: "tok \<Rightarrow> nat \<Rightarrow> gtime \<Rightarrow> gtime" where
  "set_field k n t =
     (case t of GTime y mo d h mi se z \<Rightarrow>
        (case k of
           TYear \<Rightarrow> GTime n mo d h mi se z
         | TMonth \<Rightarrow> GTime y n d h mi se z
         | TDay \<Rightarrow> GTime y mo n h mi se z
         | THour \<Rightarrow> GTime y mo d n mi se z
         | TMinute \<Rightarrow> GTime y mo d h n se z
         | TSecond \<Rightarrow> GTime y mo d h mi n z
         | _ \<Rightarrow> t))"

definition set_offset :: "int \<Rightarrow> gtime \<Rightarrow> gtime" where
  "set_offset off t = (case t of GTime y mo d h mi se z \<Rightarrow> GTime y mo d h mi se off)"

definition field_ok :: "tok \<Rightarrow> nat \<Rightarrow> bool" where
  "field_ok k n =
     (case k of
        TMonth \<Rightarrow> 1 \<le> n \<and> n \<le> 12
      | THour \<Rightarrow> n < 24
      | TMinute \<Rightarrow> n < 60
      | TSecond \<Rightarrow> n < 60
      | _ \<Rightarrow> True)"

text \<open>One layout element against the front of the text: the rest of the text and the time.\<close>

definition step_tok :: "tok \<Rightarrow> string \<Rightarrow> gtime \<Rightarrow> (string \<times> gtime) option" where
  "step_tok k s t =
     (case k of
        TLit c \<Rightarrow> (case s of [] \<Rightarrow> None | x # xs \<Rightarrow> if x = c then Some (xs, t) else None)
      | TZone \<Rightarrow>
          if 3 \<le> length s \<and> (\<forall>c \<in> set (take 3 s). c \<in> set ''ABCDEFGHIJKLMNOPQRSTUVWXYZ'')
          then Some (drop 3 s, t) else None
      | TOffset \<Rightarrow>
          (case s of
             [] \<Rightarrow> None
           | sg # r0 \<Rightarrow>
               if sg \<noteq> CHR ''+'' \<and> sg \<noteq> CHR ''-'' then None
               else (case take_number 2 r0 of
                       None \<Rightarrow> None
                     | Some (hh, r1) \<Rightarrow>
                         (case take_number 2 r1 of
                            None \<Rightarrow> None
                          | Some (mm, r2) \<Rightarrow>
                              if hh \<le> 24 \<and> mm < 60 then
                                Some (r2, set_offset
                                            ((if sg = CHR ''-'' then - 1 else 1)
                                               * int (hh * 3600 + mm * 60)) t)
                              else None)))
      | _ \<Rightarrow>
          (case take_number (if k = TYear then 4 else 2) s of
             None \<Rightarrow> None
           | Some (n, r) \<Rightarrow> if field_ok k n then Some (r, set_field k n t) else None))"

fun run_tokens :: "tok list \<Rightarrow> string \<Rightarrow> gtime \<Rightarrow> gtime option" where
  "run_tokens [] s t = (if s = [] then Some t else None)"
| "run_tokens (k # ks) s t =
     (case step_tok k s t of
        None \<Rightarrow> None
      | Some (r, t') \<Rightarrow> run_tokens ks r t')"

definition date_toks :: "tok list" where
  "date_toks = [TYear, TLit CHR ''-'', TMonth, TLit CHR ''-'', TDay]"

definition clock_toks :: "tok list" where
  "clock_toks = [THour, TLit CHR '':'', TMinute, TLit CHR '':'', TSecond]"

definition layout_tokens :: "string \<Rightarrow> tok list option" where
  "layout_tokens l =
     (if l = ''2006-01-02'' then Some date_toks
      else if l = ''2006-01-02 15:04:05'' then Some (date_toks @ [TLit CHR '' ''] @ clock_toks)
      else if l = ''2006-01-02T15:04:05'' then Some (date_toks @ [TLit CHR ''T''] @ clock_toks)
      else if l = ''2006-01-02T15:04:05Z''
        then Some (date_toks @ [TLit CHR ''T''] @ clock_toks @ [TLit CHR ''Z''])
      else if l = ''2006-01-02T15:04:05 MST''
        then Some (date_toks @ [TLit CHR ''T''] @ clock_toks @ [TLit CHR '' '', TZone])
      else if l = ''2006-01-02T15:04:05-0700''
        then Some (date_toks @ [TLit CHR ''T''] @ clock_toks @ [TOffset])
      else None)"

definition days_in :: "nat \<Rightarrow> nat \<Rightarrow> nat" where
  "days_in y mo =
     (if mo = 2 then (if y mod 4 = 0 \<and> (y mod 100 \<noteq> 0 \<or> y mod 400 = 0) then 29 else 28)
      else if mo \<in> {4, 6, 9, 11} then 30 else 31)"

definition std_time_zero :: gtime where
  "std_time_zero = GTime 1 1 1 0 0 0 0"

definition std_time_Parse :: "string \<Rightarrow> string \<Rightarrow> gtime option" where
  "std_time_Parse layout s =
     (case layout_tokens layout of
        None \<Rightarrow> None
      | Some ts \<Rightarrow>
          (case run_tokens ts s std_time_zero of
             None \<Rightarrow> None
           | Some (GTime y mo d h mi se z) \<Rightarrow>
               if 1 \<le> d \<and> d \<le> days_in y mo then Some (GTime y mo d h mi se z) else None))"

definition std_ParseFloat :: "string \<Rightarrow> rat option" where
  "std_ParseFloat s =
     (let neg = (s \<noteq> [] \<and> hd s = CHR ''-'');
          ds = (if s \<noteq> [] \<and> (hd s = CHR ''-'' \<or> hd s = CHR ''+'') then tl s else s);
          ip = takeWhile (\<lambda>c. c \<noteq> CHR ''.'') ds;
          fp = drop (Suc (length ip)) ds
      in if ip = [] \<and> fp = [] then None
         else (case (digits_value 0 ip, digits_value 0 fp) of
                 (Some a, Some b) \<Rightarrow>
                   (let v = of_nat a + of_nat b / 10 ^ length fp
                    in Some (if neg then - v else v))
               | _ \<Rightarrow> None))"

definition std_ParseInt0 :: "string \<Rightarrow> int option" where
  "std_ParseInt0 s =
     (let ds = (if s \<noteq> [] \<and> (hd s = CHR ''-'' \<or> hd s = CHR ''+'') then tl s else s)
      in if 1 < length ds \<and> hd ds = CHR ''0'' then None
         else if CHR ''_'' \<in> set ds then None
         else Atoi s)"

definition std_lower_char :: "char \<Rightarrow> char" where
  "std_lower_char c =
     (if c \<in> set ''ABCDEFGHIJKLMNOPQRSTUVWXYZ'' then char_of (of_char c + (32::nat)) else c)"

definition stdlib :: "(rat, gtime) golib" where
  "stdlib =
     \<lparr>ParseFloat = std_ParseFloat,
      float_neq = (\<lambda>x y. x \<noteq> y),
      float_zero = 0,
      time_Parse = std_time_Parse,
      time_zero = std_time_zero,
      ParseInt0 = std_ParseInt0,
      ToLower = map std_lower_char\<rparr>"

text \<open>The fresh flag set of a process, and struct tags written field by field.\<close>

definition freshFlags :: "('f, 't) FlagSet" where
  "freshFlags = \<lparr>formal = [], parsed = False\<rparr>"

definition mkTag :: "string \<Rightarrow> string \<Rightarrow> string \<Rightarrow> (string \<times> string) list" where
  "mkTag fl en df = [(''flag'', fl), (''env'', en), (''default'', df)]"

text \<open>The struct of the repository's tests, with Go's zero values in its fields.\<close>

definition TestConfig :: "(rat, gtime) config" where
  "TestConfig =
     [\<lparr>Name = ''Host'', CanSet = True, Type = GoString,
        Tag = mkTag ''host'' ''HOST'' ''localhost:8080'', Value = VString []\<rparr>,
      \<lparr>Name = ''Port'', CanSet = True, Type = GoInt,
        Tag = mkTag ''port'' ''PORT'' ''9000'', Value = VInt 0\<rparr>,
      \<lparr>Name = ''Debug'', CanSet = True, Type = GoBool,
        Tag = mkTag ''debug'' ''DEBUG'' ''false'', Value = VBool False\<rparr>,
      \<lparr>Name = ''Timeout'', CanSet = True, Type = GoFloat64,
        Tag = mkTag ''timeout'' ''TIMEOUT'' ''30.5'', Value = VFloat 0\<rparr>,
      \<lparr>Name = ''StartTime'', CanSet = True, Type = GoTime,
        Tag = mkTag ''start'' ''START_TIME'' ''2023-01-01T00:00:00Z'',
        Value = VTime std_time_zero\<rparr>]"

text \<open>One-field structs for small runs.\<close>

definition HostConfig :: "(rat, gtime) config" where
  "HostConfig =
     [\<lparr>Name = ''Host'', CanSet = True, Type = GoString,
        Tag = mkTag ''host'' ''HOST'' ''localhost:8080'', Value = VString []\<rparr>]"

definition StartConfig :: "(rat, gtime) config" where
  "StartConfig =
     [\<lparr>Name = ''StartTime'', CanSet = True, Type = GoTime,
        Tag = mkTag ''start'' ''START_TIME'' ''2023-01-01T00:00:00Z'',
        Value = VTime std_time_zero\<rparr>]"

text \<open>
  A struct with a field of the unsupported type \<open>time.Duration\<close> and a field without a
  \<open>flag\<close> tag next to a well-declared one.
\<close>

definition MixedConfig :: "(rat, gtime) config" where
  "MixedConfig =
     [\<lparr>Name = ''Host'', CanSet = True, Type = GoString,
        Tag = mkTag ''host'' ''HOST'' ''localhost:8080'', Value = VString []\<rparr>,
      \<lparr>Name = ''Duration'', CanSet = True, Type = GoOther ''time.Duration'',
        Tag = mkTag ''d'' ''DURATION'' ''34s'', Value = VOther ''0s''\<rparr>,
      \<lparr>Name = ''Secret'', CanSet = True, Type = GoString,
        Tag = [(''env'', ''SECRET''), (''default'', ''hunter2'')], Value = VString []\<rparr>]"

text \<open>A timestamp field whose default is a date only.\<close>

definition DateConfig :: "(rat, gtime) config" where
  "DateConfig =
     [\<lparr>Name = ''StartTime'', CanSet = True, Type = GoTime,
        Tag = mkTag ''start'' ''START_TIME'' ''2023-01-01'',
        Value = VTime std_time_zero\<rparr>]"

text \<open>A struct with one int field.\<close>

definition PortConfig :: "(rat, gtime) config" where
  "PortConfig =
     [\<lparr>Name = ''Port'', CanSet = True, Type = GoInt,
        Tag = mkTag ''port'' ''PORT'' ''9000'', Value = VInt 0\<rparr>]"

text \<open>A base container written out, for running single accessors.\<close>

definition mkBase :: "string \<Rightarrow> string \<Rightarrow> string \<Rightarrow> (string \<rightharpoonup> string) \<Rightarrow> baseContainer" where
  "mkBase fl en df ef =
     \<lparr>defaultValue = df, description = [], envFile = ef, envName = en,
      fieldName = [], fieldIndex = 0, flagName = fl\<rparr>"

section \<open>Auxiliary facts\<close>

subsection \<open>Time parsing, declarations and single steps\<close>

lemma parseTime_loop_first:
  "i < length fs \<Longrightarrow> time_Parse L (fs ! i) v = Some t
     \<Longrightarrow> (\<forall>j<i. time_Parse L (fs ! j) v = None) \<Longrightarrow> parseTime_loop L fs v = t"
proof (induction fs arbitrary: i)
  case Nil
  then show ?case by simp
next
  case (Cons f fs)
  show ?case
  proof (cases i)
    case 0
    with Cons.prems show ?thesis by simp
  next
    case (Suc k)
    with Cons.prems have h0: "time_Parse L f v = None" by auto
    from Suc Cons.prems have "\<forall>j<k. time_Parse L (fs ! j) v = None" by auto
    with Suc Cons.prems Cons.IH[of k] h0 show ?thesis by simp
  qed
qed

lemma parseTime_loop_none:
  "(\<forall>f\<in>set fs. time_Parse L f v = None) \<Longrightarrow> parseTime_loop L fs v = time_zero L"
  by (induction fs) auto

lemma isTime_loop_iff:
  "isTime_loop L fs v \<longleftrightarrow> (\<exists>f\<in>set fs. time_Parse L f v \<noteq> None)"
  by (induction fs) (auto split: option.splits)

lemma GetDefaultValue_time:
  "GetDefaultValue L (TimeContainer b p) = VTime (parseTime L (defaultValue b))"
  using parseTime_loop_none[of timeFormats L "defaultValue b"]
  by (auto simp: isTime_def parseTime_def isTime_loop_iff)

lemma newBaseContainer_index:
  "newBaseContainer config i ef = Inr (Inr b) \<Longrightarrow> fieldIndex b = i \<and> i < length config"
  by (auto simp: newBaseContainer_def split: if_splits option.splits)

lemma newBaseContainer_decl:
  assumes "map decl config' = map decl config"
  shows "newBaseContainer config' i ef = newBaseContainer config i ef"
proof -
  from assms have len: "length config' = length config" by (metis length_map)
  show ?thesis
  proof (cases "i < length config")
    case True
    with assms len have "decl (config' ! i) = decl (config ! i)" by (metis nth_map)
    with len show ?thesis
      by (auto simp: newBaseContainer_def decl_def split: option.splits)
  next
    case False
    with len show ?thesis by (simp add: newBaseContainer_def)
  qed
qed

lemma containerFor_cong:
  assumes "map decl config' = map decl config" "parsed fs' = parsed fs"
  shows "containerFor fs' config' i ef = containerFor fs config i ef"
proof -
  from assms have len: "length config' = length config" by (metis length_map)
  show ?thesis
  proof (cases "i < length config")
    case True
    with assms len have "decl (config' ! i) = decl (config ! i)" by (metis nth_map)
    then have "Type (config' ! i) = Type (config ! i)" by (simp add: decl_def)
    with assms show ?thesis
      by (simp add: containerFor_def newBaseContainer_decl[OF assms(1)] Let_def
          split: sum.splits gotype.splits)
  next
    case False
    with len show ?thesis by (simp add: containerFor_def newBaseContainer_def)
  qed
qed

lemma containerFor_index:
  "containerFor fs config i ef = Some c \<Longrightarrow> fieldIndex (base c) = i \<and> i < length config"
  by (auto simp: containerFor_def Let_def dest: newBaseContainer_index
      split: sum.splits gotype.splits)

lemma decl_update: "decl (f\<lparr>Value := v\<rparr>) = decl f"
  by (simp add: decl_def)

lemma map_decl_update:
  "map decl (config[i := (config ! i)\<lparr>Value := v\<rparr>]) = map decl config"
  by (cases "i < length config")
    (simp_all add: map_update decl_update list_update_same_conv list_update_beyond)

lemma SetConfigValue_eq:
  "fieldIndex (base c) = i \<Longrightarrow> SetConfigValue c v config = config[i := (config ! i)\<lparr>Value := v\<rparr>]"
  by (simp add: SetConfigValue_def)

lemma update_self:
  "i < length config \<Longrightarrow> config[i := (config ! i)\<lparr>Value := Value (config ! i)\<rparr>] = config"
  by (simp add: list_update_same_conv)

lemma applyValueWithPrecedence_eq:
  assumes "fieldIndex (base c) = i" "i < length config"
  shows "applyValueWithPrecedence L environ fs c config =
         config[i := (config ! i)\<lparr>Value :=
           precedence (GetFlagValue L fs c) (GetEnvFileValue L c) (GetEnvValue L environ c)
             (Value (config ! i))\<rparr>]"
proof -
  obtain v1 k1 where e1: "GetEnvValue L environ c = (v1, k1)" by (cases "GetEnvValue L environ c")
  obtain v2 k2 where e2: "GetEnvFileValue L c = (v2, k2)" by (cases "GetEnvFileValue L c")
  obtain v3 k3 where e3: "GetFlagValue L fs c = (v3, k3)" by (cases "GetFlagValue L fs c")
  show ?thesis
    using assms
    by (simp add: applyValueWithPrecedence_def e1 e2 e3 precedence_def SetConfigValue_eq
        update_self)
qed

lemma newContainer_result:
  assumes "newContainer mk fd L fs config i ef = Inr (r, fs', config')"
  shows "(case newBaseContainer config i ef of
            Inl a \<Rightarrow> False
          | Inr (Inl e) \<Rightarrow> r = Inl e \<and> fs' = fs \<and> config' = config
          | Inr (Inr b) \<Rightarrow>
              r = Inr (mk b (if parsed fs then None else Some (flagName b)))
              \<and> config' = SetConfigValue (mk b (if parsed fs then None else Some (flagName b)))
                    (GetDefaultValue L (mk b (if parsed fs then None else Some (flagName b)))) config
              \<and> (if parsed fs then fs' = fs
                  else flag_Var fs (flagName b) (fd (mk b None)) = Inr fs'))"
  using assms
  by (auto simp: newContainer_def split: sum.splits if_splits)

lemma flag_Var_result:
  "flag_Var fs n v = Inr fs' \<Longrightarrow>
     map_of (formal fs) n = None \<and> formal fs' = formal fs @ [(n, v)] \<and> parsed fs' = parsed fs"
  by (auto simp: flag_Var_def split: if_splits)

subsection \<open>What \<open>New\<close> returns and what flag parsing leaves alone\<close>

lemma New_result:
  assumes "New L fs config i ef = Inr (r, fs', config')"
  shows "i < length config
     \<and> (case r of Inl e \<Rightarrow> None | Inr c \<Rightarrow> Some c) = containerFor fs config i ef
     \<and> parsed fs' = parsed fs
     \<and> (case containerFor fs config i ef of
           None \<Rightarrow> config' = config \<and> fs' = fs
         | Some c \<Rightarrow>
             config' = config[i := (config ! i)\<lparr>Value := GetDefaultValue L c\<rparr>]
             \<and> (if parsed fs then fs' = fs
                 else map_of (formal fs) (flagName (base c)) = None
                      \<and> formal fs' = formal fs @ [(flagName (base c), registeredDefault L c)]))"
proof -
  from assms have len: "i < length config"
    by (auto simp: New_def split: if_splits)
  show ?thesis
  proof (cases "Type (config ! i)")
    case GoBool
    with assms len have "newContainer BoolContainer (GetDefaultValue L) L fs config i ef = Inr (r, fs', config')"
      by (simp add: New_def NewBool_def)
    from newContainer_result[OF this] len GoBool show ?thesis
      by (auto simp: containerFor_def SetConfigValue_def Let_def
          dest!: flag_Var_result newBaseContainer_index split: sum.splits if_splits)
  next
    case GoInt
    with assms len have "newContainer IntContainer (GetDefaultValue L) L fs config i ef = Inr (r, fs', config')"
      by (simp add: New_def NewInt_def)
    from newContainer_result[OF this] len GoInt show ?thesis
      by (auto simp: containerFor_def SetConfigValue_def Let_def
          dest!: flag_Var_result newBaseContainer_index split: sum.splits if_splits)
  next
    case GoFloat64
    with assms len have "newContainer Float64Container (GetDefaultValue L) L fs config i ef = Inr (r, fs', config')"
      by (simp add: New_def NewFloat64_def)
    from newContainer_result[OF this] len GoFloat64 show ?thesis
      by (auto simp: containerFor_def SetConfigValue_def Let_def
          dest!: flag_Var_result newBaseContainer_index split: sum.splits if_splits)
  next
    case GoString
    with assms len have "newContainer StringContainer (GetDefaultValue L) L fs config i ef = Inr (r, fs', config')"
      by (simp add: New_def NewString_def)
    from newContainer_result[OF this] len GoString show ?thesis
      by (auto simp: containerFor_def SetConfigValue_def Let_def
          dest!: flag_Var_result newBaseContainer_index split: sum.splits if_splits)
  next
    case GoTime
    with assms len have "newContainer TimeContainer (\<lambda>c. VString (defaultValue (base c))) L fs config i ef = Inr (r, fs', config')"
      by (simp add: New_def NewTime_def)
    from newContainer_result[OF this] len GoTime show ?thesis
      by (auto simp: containerFor_def SetConfigValue_def Let_def
          dest!: flag_Var_result newBaseContainer_index split: sum.splits if_splits)
  next
    case (GoOther n)
    with assms len show ?thesis
      by (auto simp: New_def containerFor_def Let_def split: sum.splits)
  qed
qed

lemma parseArgs_unsupplied:
  "parseArgs L fm args = Inr fm' \<Longrightarrow> n \<notin> set (suppliedFlags args)
     \<Longrightarrow> map_of fm' n = map_of fm n"
proof (induction L fm args rule: parseArgs.induct)
  case (1 L fm)
  then show ?case by simp
next
  case (2 L fm p rest)
  then show ?case by simp
next
  case (3 L fm name raw rest)
  from "3.prems" obtain cur v where
    c: "map_of fm name = Some cur" and s: "flag_Set L cur raw = Some v"
    and r: "parseArgs L (AList.update name v fm) rest = Inr fm'"
    by (auto split: option.splits)
  from "3.prems" have ne: "n \<noteq> name" and nr: "n \<notin> set (suppliedFlags rest)" by auto
  from "3.IH"[OF c s r nr] ne show ?case by (simp add: update_conv')
qed

subsection \<open>The two loops of \<open>Behold\<close>\<close>

lemma newContainers_result:
  assumes "newContainers L ef idx fs config = Inr (cs, fs', config')"
    and "distinct idx"
  shows "cs = map (\<lambda>i. containerFor fs config i ef) idx
     \<and> parsed fs' = parsed fs
     \<and> map decl config' = map decl config
     \<and> (\<forall>j<length config. Value (config' ! j) =
            (if j \<in> set idx then
               (case containerFor fs config j ef of
                  None \<Rightarrow> Value (config ! j)
                | Some c \<Rightarrow> GetDefaultValue L c)
             else Value (config ! j)))
     \<and> (\<forall>n v. map_of (formal fs) n = Some v \<longrightarrow> map_of (formal fs') n = Some v)
     \<and> (\<not> parsed fs \<longrightarrow> (\<forall>j\<in>set idx. \<forall>c. containerFor fs config j ef = Some c \<longrightarrow>
            map_of (formal fs') (flagName (base c)) = Some (registeredDefault L c)))
     \<and> (parsed fs \<longrightarrow> fs' = fs)"
  using assms
proof (induction idx arbitrary: fs config cs fs' config')
  case Nil
  then show ?case by simp
next
  case (Cons i rest)
  from Cons.prems(1) obtain r fs1 config1 cs1 where
    n: "New L fs config i ef = Inr (r, fs1, config1)"
    and l: "newContainers L ef rest fs1 config1 = Inr (cs1, fs', config')"
    and cs: "cs = (case r of Inl err \<Rightarrow> None | Inr c \<Rightarrow> Some c) # cs1"
    by (auto split: sum.splits prod.splits)
  from Cons.prems(2) have d: "distinct rest" and ni: "i \<notin> set rest" by auto
  note N = New_result[OF n]
  from N have len: "i < length config" and p1: "parsed fs1 = parsed fs"
    and r: "(case r of Inl e \<Rightarrow> None | Inr c \<Rightarrow> Some c) = containerFor fs config i ef"
    by auto
  have dec1: "map decl config1 = map decl config"
    using N by (auto simp: map_decl_update split: option.splits)
  have cf: "\<And>j. containerFor fs1 config1 j ef = containerFor fs config j ef"
    by (rule containerFor_cong[OF dec1 p1])
  have len1: "length config1 = length config" using dec1 by (metis length_map)
  have v1: "\<forall>j<length config. Value (config1 ! j) =
      (if j = i then (case containerFor fs config i ef of None \<Rightarrow> Value (config ! j)
                       | Some c \<Rightarrow> GetDefaultValue L c) else Value (config ! j))"
    using N len by (auto split: option.splits)
  have mono1: "\<forall>n v. map_of (formal fs) n = Some v \<longrightarrow> map_of (formal fs1) n = Some v"
    using N by (auto split: option.splits if_splits simp: map_add_Some_iff)
  have reg1: "\<not> parsed fs \<longrightarrow> (\<forall>c. containerFor fs config i ef = Some c \<longrightarrow>
       map_of (formal fs1) (flagName (base c)) = Some (registeredDefault L c))"
    using N by (auto split: option.splits if_splits simp: map_add_Some_iff)
  have same1: "parsed fs \<longrightarrow> fs1 = fs"
    using N by (auto split: option.splits if_splits)
  note IH = Cons.IH[OF l d]
  have A: "cs = map (\<lambda>i. containerFor fs config i ef) (i # rest)"
    using IH cs r by (simp add: cf)
  have B: "parsed fs' = parsed fs" using IH p1 by simp
  have C: "map decl config' = map decl config" using IH dec1 by simp
  have D: "\<forall>j<length config. Value (config' ! j) =
            (if j \<in> set (i # rest) then
               (case containerFor fs config j ef of
                  None \<Rightarrow> Value (config ! j)
                | Some c \<Rightarrow> GetDefaultValue L c)
             else Value (config ! j))"
  proof (intro allI impI)
    fix j assume j: "j < length config"
    with IH len1 have "Value (config' ! j) =
            (if j \<in> set rest then
               (case containerFor fs1 config1 j ef of
                  None \<Rightarrow> Value (config1 ! j)
                | Some c \<Rightarrow> GetDefaultValue L c)
             else Value (config1 ! j))" by simp
    with v1 j ni show "Value (config' ! j) =
            (if j \<in> set (i # rest) then
               (case containerFor fs config j ef of
                  None \<Rightarrow> Value (config ! j)
                | Some c \<Rightarrow> GetDefaultValue L c)
             else Value (config ! j))"
      by (auto simp: cf split: option.splits)
  qed
  have E: "\<forall>n v. map_of (formal fs) n = Some v \<longrightarrow> map_of (formal fs') n = Some v"
    using IH mono1 by blast
  have F: "\<not> parsed fs \<longrightarrow> (\<forall>j\<in>set (i # rest). \<forall>c. containerFor fs config j ef = Some c \<longrightarrow>
            map_of (formal fs') (flagName (base c)) = Some (registeredDefault L c))"
  proof (intro impI ballI allI)
    fix j c assume np: "\<not> parsed fs" and j: "j \<in> set (i # rest)"
      and c: "containerFor fs config j ef = Some c"
    show "map_of (formal fs') (flagName (base c)) = Some (registeredDefault L c)"
    proof (cases "j = i")
      case True
      with reg1 np c have "map_of (formal fs1) (flagName (base c)) = Some (registeredDefault L c)"
        by simp
      with IH show ?thesis by blast
    next
      case False
      with j have "j \<in> set rest" by simp
      moreover from np p1 have "\<not> parsed fs1" by simp
      moreover from c have "containerFor fs1 config1 j ef = Some c" by (simp add: cf)
      ultimately show ?thesis using IH by blast
    qed
  qed
  have G: "parsed fs \<longrightarrow> fs' = fs" using IH same1 p1 by simp
  from A B C D E F G show ?case by blast
qed

lemma applyContainers_result:
  assumes "distinct idx" "\<forall>i\<in>set idx. \<forall>c. F i = Some c \<longrightarrow> fieldIndex (base c) = i \<and> i < length config"
  shows "map decl (applyContainers L environ fs (map F idx) config) = map decl config
     \<and> (\<forall>j<length config. Value (applyContainers L environ fs (map F idx) config ! j) =
            (if j \<in> set idx then
               (case F j of
                  None \<Rightarrow> Value (config ! j)
                | Some c \<Rightarrow> precedence (GetFlagValue L fs c) (GetEnvFileValue L c)
                              (GetEnvValue L environ c) (Value (config ! j)))
             else Value (config ! j)))"
  using assms
proof (induction idx arbitrary: config)
  case Nil
  then show ?case by simp
next
  case (Cons i rest)
  let ?c1 = "(case F i of None \<Rightarrow> config
              | Some tc \<Rightarrow> applyValueWithPrecedence L environ fs tc config)"
  from Cons.prems have d: "distinct rest" and ni: "i \<notin> set rest" by auto
  have c1: "?c1 = (case F i of None \<Rightarrow> config
      | Some c \<Rightarrow> config[i := (config ! i)\<lparr>Value :=
           precedence (GetFlagValue L fs c) (GetEnvFileValue L c) (GetEnvValue L environ c)
             (Value (config ! i))\<rparr>])"
    using Cons.prems(2) by (auto split: option.splits simp: applyValueWithPrecedence_eq)
  have dec1: "map decl ?c1 = map decl config"
    unfolding c1 by (simp add: map_decl_update split: option.splits)
  have len1: "length ?c1 = length config" using dec1 by (metis length_map)
  have pre: "\<forall>i\<in>set rest. \<forall>c. F i = Some c \<longrightarrow> fieldIndex (base c) = i \<and> i < length ?c1"
    using Cons.prems(2) len1 by simp
  note IH = Cons.IH[OF d pre]
  have eq: "applyContainers L environ fs (map F (i # rest)) config
      = applyContainers L environ fs (map F rest) ?c1" by simp
  have A: "map decl (applyContainers L environ fs (map F (i # rest)) config) = map decl config"
    unfolding eq using IH dec1 by simp
  have v1: "\<forall>j<length config. Value (?c1 ! j) =
      (if j = i then (case F i of None \<Rightarrow> Value (config ! j)
         | Some c \<Rightarrow> precedence (GetFlagValue L fs c) (GetEnvFileValue L c)
                              (GetEnvValue L environ c) (Value (config ! j)))
       else Value (config ! j))"
    unfolding c1 by (auto split: option.splits)
  have B: "\<forall>j<length config. Value (applyContainers L environ fs (map F (i # rest)) config ! j) =
            (if j \<in> set (i # rest) then
               (case F j of
                  None \<Rightarrow> Value (config ! j)
                | Some c \<Rightarrow> precedence (GetFlagValue L fs c) (GetEnvFileValue L c)
                              (GetEnvValue L environ c) (Value (config ! j)))
             else Value (config ! j))"
  proof (intro allI impI)
    fix j assume j: "j < length config"
    with IH len1 have "Value (applyContainers L environ fs (map F rest) ?c1 ! j) =
            (if j \<in> set rest then
               (case F j of
                  None \<Rightarrow> Value (?c1 ! j)
                | Some c \<Rightarrow> precedence (GetFlagValue L fs c) (GetEnvFileValue L c)
                              (GetEnvValue L environ c) (Value (?c1 ! j)))
             else Value (?c1 ! j))" by simp
    with v1 j ni show "Value (applyContainers L environ fs (map F (i # rest)) config ! j) =
            (if j \<in> set (i # rest) then
               (case F j of
                  None \<Rightarrow> Value (config ! j)
                | Some c \<Rightarrow> precedence (GetFlagValue L fs c) (GetEnvFileValue L c)
                              (GetEnvValue L environ c) (Value (config ! j)))
             else Value (config ! j))"
      unfolding eq by (auto split: option.splits)
  qed
  from A B show ?case by blast
qed

subsection \<open>The resolution pass as a whole\<close>

lemma Behold_unfold:
  assumes "Behold L environ dot args fs config = Inr (fs', config')"
  shows "dot \<noteq> UnreadableEnvFile \<and>
    (\<exists>cs fs1 config1.
       newContainers L (envFileOf dot) [0..<length config] fs config = Inr (cs, fs1, config1)
       \<and> (if args \<noteq> [] \<and> \<not> parsed fs1 then flag_Parse L fs1 args else Inr fs1) = Inr fs'
       \<and> config' = applyContainers L environ fs' cs config1)"
  using assms
  by (cases dot)
    (auto simp: Behold_def envFileOf_def Let_def split: sum.splits prod.splits
      split del: if_split)

lemma flag_Parse_result:
  assumes "flag_Parse L fs args = Inr fs'"
  shows "parsed fs' \<and> (\<forall>n. n \<notin> set (suppliedFlags args) \<longrightarrow> deref fs' n = deref fs n)"
  using assms parseArgs_unsupplied[of L "formal fs" args]
  by (auto simp: flag_Parse_def deref_def split: sum.splits)

lemma Behold_result:
  assumes "Behold L environ dot args fs config = Inr (fs', config')"
  shows "map decl config' = map decl config
     \<and> (\<forall>j<length config. Value (config' ! j) =
           (case containerFor fs config j (envFileOf dot) of
              None \<Rightarrow> Value (config ! j)
            | Some c \<Rightarrow> precedence (GetFlagValue L fs' c) (GetEnvFileValue L c)
                          (GetEnvValue L environ c) (GetDefaultValue L c)))
     \<and> parsed fs' = (parsed fs \<or> args \<noteq> [])
     \<and> (parsed fs \<longrightarrow> fs' = fs)
     \<and> (\<not> parsed fs \<longrightarrow> (\<forall>j<length config. \<forall>c.
           containerFor fs config j (envFileOf dot) = Some c \<longrightarrow>
           flagName (base c) \<notin> set (suppliedFlags args) \<longrightarrow>
           deref fs' (flagName (base c)) = Some (registeredDefault L c)))"
proof -
  let ?ef = "envFileOf dot"
  let ?F = "\<lambda>i. containerFor fs config i ?ef"
  from Behold_unfold[OF assms] obtain cs fs1 config1 where
    nc: "newContainers L ?ef [0..<length config] fs config = Inr (cs, fs1, config1)"
    and fp: "(if args \<noteq> [] \<and> \<not> parsed fs1 then flag_Parse L fs1 args else Inr fs1) = Inr fs'"
    and ap: "config' = applyContainers L environ fs' cs config1"
    by blast
  note R = newContainers_result[OF nc distinct_upt]
  from R have cs: "cs = map ?F [0..<length config]" and p1: "parsed fs1 = parsed fs"
    and dec1: "map decl config1 = map decl config" by auto
  have len1: "length config1 = length config" using dec1 by (metis length_map)
  from R have v1: "\<forall>j<length config. Value (config1 ! j) =
      (case ?F j of None \<Rightarrow> Value (config ! j) | Some c \<Rightarrow> GetDefaultValue L c)"
    by simp
  have pre: "\<forall>i\<in>set [0..<length config]. \<forall>c. ?F i = Some c \<longrightarrow>
       fieldIndex (base c) = i \<and> i < length config1"
    using containerFor_index len1 by fastforce
  note A = applyContainers_result[OF distinct_upt pre, of L environ fs']
  have D: "map decl config' = map decl config"
    using A dec1 by (simp add: ap cs)
  have V: "\<forall>j<length config. Value (config' ! j) =
           (case ?F j of
              None \<Rightarrow> Value (config ! j)
            | Some c \<Rightarrow> precedence (GetFlagValue L fs' c) (GetEnvFileValue L c)
                          (GetEnvValue L environ c) (GetDefaultValue L c))"
  proof (intro allI impI)
    fix j assume j: "j < length config"
    with A len1 have "Value (config' ! j) =
        (case ?F j of None \<Rightarrow> Value (config1 ! j)
         | Some c \<Rightarrow> precedence (GetFlagValue L fs' c) (GetEnvFileValue L c)
                              (GetEnvValue L environ c) (Value (config1 ! j)))"
      by (simp add: ap cs)
    with v1 j show "Value (config' ! j) =
           (case ?F j of
              None \<Rightarrow> Value (config ! j)
            | Some c \<Rightarrow> precedence (GetFlagValue L fs' c) (GetEnvFileValue L c)
                          (GetEnvValue L environ c) (GetDefaultValue L c))"
      by (auto split: option.splits)
  qed
  have P: "parsed fs' = (parsed fs \<or> args \<noteq> [])"
    using fp p1 flag_Parse_result[of L fs1 args fs'] by (auto split: if_splits)
  have S: "parsed fs \<longrightarrow> fs' = fs"
    using fp p1 R by (auto split: if_splits)
  have U: "\<not> parsed fs \<longrightarrow> (\<forall>j<length config. \<forall>c.
           ?F j = Some c \<longrightarrow>
           flagName (base c) \<notin> set (suppliedFlags args) \<longrightarrow>
           deref fs' (flagName (base c)) = Some (registeredDefault L c))"
  proof (intro impI allI)
    fix j c assume np: "\<not> parsed fs" and j: "j < length config" and c: "?F j = Some c"
      and ns: "flagName (base c) \<notin> set (suppliedFlags args)"
    from R np j c have "deref fs1 (flagName (base c)) = Some (registeredDefault L c)"
      by (simp add: deref_def)
    moreover have "deref fs' (flagName (base c)) = deref fs1 (flagName (base c))"
      using fp ns flag_Parse_result[of L fs1 args fs'] by (auto split: if_splits)
    ultimately show "deref fs' (flagName (base c)) = Some (registeredDefault L c)" by simp
  qed
  from D V P S U show ?thesis by blast
qed

lemma New_parsed_total:
  assumes "parsed fs" "i < length config"
  shows "\<exists>r config'. New L fs config i ef = Inr (r, fs, config') \<and> length config' = length config"
  using assms
  by (cases "Type (config ! i)")
    (auto simp: New_def NewBool_def NewInt_def NewFloat64_def NewString_def NewTime_def
      newContainer_def newBaseContainer_def SetConfigValue_def split: option.splits)

lemma newContainers_parsed_total:
  assumes "parsed fs" "\<forall>i\<in>set idx. i < length config"
  shows "\<exists>cs config'. newContainers L ef idx fs config = Inr (cs, fs, config')"
  using assms
proof (induction idx arbitrary: config)
  case Nil
  then show ?case by simp
next
  case (Cons i rest)
  from New_parsed_total[OF Cons.prems(1), of i config L ef] Cons.prems(2)
  obtain r config1 where n: "New L fs config i ef = Inr (r, fs, config1)"
    and len: "length config1 = length config" by auto
  from Cons.prems(2) len have "\<forall>i\<in>set rest. i < length config1" by simp
  from Cons.IH[OF Cons.prems(1) this] obtain cs config2 where
    "newContainers L ef rest fs config1 = Inr (cs, fs, config2)" by blast
  with n show ?case by simp
qed

lemma Behold_parsed_total:
  assumes "parsed fs" "dot \<noteq> UnreadableEnvFile"
  shows "\<exists>config'. Behold L environ dot args fs config = Inr (fs, config')"
proof -
  have "\<forall>i\<in>set [0..<length config]. i < length config" by simp
  from newContainers_parsed_total[OF assms(1) this, of L "envFileOf dot"]
  obtain cs config1 where
    "newContainers L (envFileOf dot) [0..<length config] fs config = Inr (cs, fs, config1)"
    by blast
  with assms show ?thesis
    by (cases dot) (auto simp: Behold_def envFileOf_def)
qed

lemma config_eqI:
  assumes "map decl c1 = map decl c2" "\<forall>j<length c2. Value (c1 ! j) = Value (c2 ! j)"
  shows "c1 = c2"
proof (rule nth_equalityI)
  from assms(1) show len: "length c1 = length c2" by (metis length_map)
  fix j assume j: "j < length c1"
  with assms(1) len have "decl (c1 ! j) = decl (c2 ! j)" by (metis nth_map)
  moreover from assms(2) j len have "Value (c1 ! j) = Value (c2 ! j)" by simp
  ultimately show "c1 ! j = c2 ! j" by (simp add: decl_def)
qed

subsection \<open>Which fields get a container, and what the accessors return\<close>

lemma flag_Var_ok_iff:
  "(\<exists>fs'. flag_Var fs n v = Inr fs') \<longleftrightarrow>
     \<not> (n \<noteq> [] \<and> hd n = CHR ''-'') \<and> CHR ''='' \<notin> set n \<and> map_of (formal fs) n = None"
  by (auto simp: flag_Var_def)

lemma New_ok_iff:
  "(\<exists>res. New L fs config i ef = Inr res) \<longleftrightarrow>
     i < length config \<and>
     (case containerFor fs config i ef of
        None \<Rightarrow> True
      | Some c \<Rightarrow> parsed fs \<or> (\<exists>fs'. flag_Var fs (flagName (base c)) (registeredDefault L c) = Inr fs'))"
proof (cases "i < length config")
  case False
  then show ?thesis by (simp add: New_def)
next
  case True
  show ?thesis
  proof (cases "newBaseContainer config i ef")
    case (Inl a)
    with True show ?thesis by (simp add: newBaseContainer_def split: if_splits option.splits)
  next
    case (Inr eb)
    show ?thesis
    proof (cases eb)
      case (Inl e)
      with Inr True show ?thesis
        by (cases "Type (config ! i)")
          (simp_all add: New_def NewBool_def NewInt_def NewFloat64_def NewString_def NewTime_def
            newContainer_def containerFor_def)
    next
      case (Inr b)
      with \<open>newBaseContainer config i ef = Inr eb\<close> True show ?thesis
        by (cases "Type (config ! i)")
          (auto simp: New_def NewBool_def NewInt_def NewFloat64_def NewString_def NewTime_def
            newContainer_def containerFor_def Let_def split: sum.splits)
    qed
  qed
qed

lemma newContainers_New_ok:
  assumes "newContainers L ef idx fs config = Inr (cs, fs', config')" "i \<in> set idx"
  shows "\<exists>res. New L fs config i ef = Inr res"
  using assms
proof (induction idx arbitrary: fs config cs fs' config')
  case Nil
  then show ?case by simp
next
  case (Cons k rest)
  from Cons.prems(1) obtain r fs1 config1 cs1 where
    n: "New L fs config k ef = Inr (r, fs1, config1)"
    and l: "newContainers L ef rest fs1 config1 = Inr (cs1, fs', config')"
    by (auto split: sum.splits prod.splits)
  show ?case
  proof (cases "i = k")
    case True
    with n show ?thesis by blast
  next
    case False
    with Cons.prems(2) have "i \<in> set rest" by simp
    from Cons.IH[OF l this] have ok1: "\<exists>res. New L fs1 config1 i ef = Inr res" .
    note N = New_result[OF n]
    from N have p1: "parsed fs1 = parsed fs" by simp
    have dec1: "map decl config1 = map decl config"
      using N by (auto simp: map_decl_update split: option.splits)
    have len1: "length config1 = length config" using dec1 by (metis length_map)
    have cf: "containerFor fs1 config1 i ef = containerFor fs config i ef"
      by (rule containerFor_cong[OF dec1 p1])
    have mono: "\<And>n. map_of (formal fs1) n = None \<Longrightarrow> map_of (formal fs) n = None"
      using N by (auto split: option.splits if_splits simp: map_add_Some_iff)
    from ok1 show ?thesis
      unfolding New_ok_iff cf len1 p1 flag_Var_ok_iff
      by (auto split: option.splits dest: mono)
  qed
qed

lemma Behold_New_ok:
  assumes "Behold L environ dot args fs config = Inr (fs', config')" "i < length config"
  shows "\<exists>r fsx configx. New L fs config i (envFileOf dot) = Inr (r, fsx, configx)
           \<and> (case r of Inl e \<Rightarrow> None | Inr c \<Rightarrow> Some c) = containerFor fs config i (envFileOf dot)"
proof -
  from Behold_unfold[OF assms(1)] obtain cs fs1 config1 where
    "newContainers L (envFileOf dot) [0..<length config] fs config = Inr (cs, fs1, config1)"
    by blast
  from newContainers_New_ok[OF this, of i] assms(2) obtain r fsx configx where
    n: "New L fs config i (envFileOf dot) = Inr (r, fsx, configx)" by auto
  from New_result[OF n] n show ?thesis by blast
qed

lemma Behold_New_Some:
  assumes "Behold L environ dot args fs config = Inr (fs', config')"
    and "containerFor fs config i (envFileOf dot) = Some c"
  shows "\<exists>fsx configx. New L fs config i (envFileOf dot) = Inr (Inr c, fsx, configx)"
proof -
  from assms(2) have "i < length config" by (simp add: containerFor_index)
  from Behold_New_ok[OF assms(1) this] obtain r fsx configx where
    n: "New L fs config i (envFileOf dot) = Inr (r, fsx, configx)"
    and r: "(case r of Inl e \<Rightarrow> None | Inr c \<Rightarrow> Some c) = containerFor fs config i (envFileOf dot)"
    by blast
  from r assms(2) have "r = Inr c" by (cases r) auto
  with n show ?thesis by blast
qed

lemma Behold_New_None:
  assumes "Behold L environ dot args fs config = Inr (fs', config')"
    and "i < length config"
    and "containerFor fs config i (envFileOf dot) = None"
  shows "\<exists>e. New L fs config i (envFileOf dot) = Inr (Inl e, fs, config)"
proof -
  from Behold_New_ok[OF assms(1,2)] obtain r fsx configx where
    n: "New L fs config i (envFileOf dot) = Inr (r, fsx, configx)"
    and r: "(case r of Inl e \<Rightarrow> None | Inr c \<Rightarrow> Some c) = containerFor fs config i (envFileOf dot)"
    by blast
  from r assms(3) obtain e where e: "r = Inl e" by (cases r) auto
  from New_result[OF n] assms(3) have "fsx = fs" "configx = config" by auto
  with n e show ?thesis by blast
qed

lemma containerFor_Some_iff:
  "(\<exists>c. containerFor fs config i ef = Some c) \<longleftrightarrow>
     i < length config \<and> CanSet (config ! i)
     \<and> Tag_Lookup (Tag (config ! i)) TagFlagName \<noteq> None \<and> supported (Type (config ! i))"
  by (auto simp: containerFor_def newBaseContainer_def supported_def Let_def
      split: option.splits gotype.splits)

lemma containerFor_fields:
  assumes "containerFor fs config i ef = Some c"
  shows "envName (base c) = Tag_Get (Tag (config ! i)) TagEnvName
     \<and> Tag_Lookup (Tag (config ! i)) TagFlagName = Some (flagName (base c))
     \<and> defaultValue (base c) = Tag_Get (Tag (config ! i)) TagDefaultValue
     \<and> envFile (base c) = ef
     \<and> flagValue c = (if parsed fs then None else Some (flagName (base c)))"
  using assms
  by (auto simp: containerFor_def newBaseContainer_def Let_def
      split: option.splits gotype.splits if_splits)

lemma GetEnvValue_unset:
  "Getenv environ (envName (base c)) = [] \<Longrightarrow> snd (GetEnvValue L environ c) = False"
  by (cases c) simp_all

lemma GetEnvFileValue_missing:
  "envFile (base c) (envName (base c)) = None \<Longrightarrow> snd (GetEnvFileValue L c) = False"
  by (cases c) simp_all

lemma GetFlagValue_nil:
  "flagValue c = None \<Longrightarrow> snd (GetFlagValue L fs c) = False"
  by (cases c) simp_all

lemma GetFlagValue_at_default:
  assumes "flagValue c = Some n" "deref fs n = Some (registeredDefault L c)"
    "snd (GetFlagValue L fs c)"
  shows "fst (GetFlagValue L fs c) = GetDefaultValue L c"
  using assms
  by (cases c) (auto split: option.splits val.splits if_splits)

lemma GetFlagValue_at_default_absent:
  assumes "flagValue c = Some n" "deref fs n = Some (registeredDefault L c)"
    "\<forall>d. GetDefaultValue L c = VFloat d \<longrightarrow> \<not> float_neq L d d"
  shows "snd (GetFlagValue L fs c) = False"
  using assms
  by (cases c) (auto split: option.splits val.splits if_splits)

subsection \<open>Further facts about single accessors\<close>

lemma setFlagValue_accessors:
  "GetEnvValue L environ (setFlagValue q c) = GetEnvValue L environ c"
  "GetEnvFileValue L (setFlagValue q c) = GetEnvFileValue L c"
  "GetDefaultValue L (setFlagValue q c) = GetDefaultValue L c"
  "flagValue (setFlagValue q c) = q"
  by (cases c; simp)+

lemma containerFor_parsed:
  assumes "parsed fs1"
  shows "containerFor fs1 config i ef = map_option (setFlagValue None) (containerFor fs config i ef)"
  using assms
  by (auto simp: containerFor_def Let_def split: sum.splits gotype.splits)

lemma precedence_absent_flag:
  "snd fl = False \<Longrightarrow> snd fl' = False \<Longrightarrow> precedence fl a b d = precedence fl' a b d"
  by (simp add: precedence_def)

lemma New_containerFor:
  "New L fs config i ef = Inr (Inr c, fsx, configx) \<Longrightarrow> containerFor fs config i ef = Some c"
  using New_result[of L fs config i ef "Inr c" fsx configx] by simp

lemma ParseBool_empty: "ParseBool [] = None"
  by (simp add: ParseBool_def)

lemma Atoi_empty: "Atoi [] = None"
  by (simp add: Atoi_def)

text \<open>
  The default value of a container, read off the declaration of its field: the text of
  the \<open>default\<close> tag parsed at the type of the field.
\<close>

lemma parseTime_loop_find:
  "parseTime_loop L fs v =
     (case List.find (\<lambda>f. time_Parse L f v \<noteq> None) fs of
        Some f \<Rightarrow> the (time_Parse L f v)
      | None \<Rightarrow> time_zero L)"
  by (induction fs) (auto split: option.splits)

lemma containerFor_default_value:
  assumes "containerFor fs config i ef = Some c"
  shows "GetDefaultValue L c =
     (let d = Tag_Get (Tag (config ! i)) TagDefaultValue
      in case Type (config ! i) of
           GoBool \<Rightarrow> VBool (case ParseBool d of Some r \<Rightarrow> r | None \<Rightarrow> False)
         | GoInt \<Rightarrow> VInt (case Atoi d of Some r \<Rightarrow> r | None \<Rightarrow> 0)
         | GoFloat64 \<Rightarrow> VFloat (case ParseFloat L d of Some r \<Rightarrow> r | None \<Rightarrow> float_zero L)
         | GoString \<Rightarrow> VString d
         | GoTime \<Rightarrow>
             VTime (case List.find (\<lambda>f. time_Parse L f d \<noteq> None) timeFormats of
                      Some f \<Rightarrow> the (time_Parse L f d)
                    | None \<Rightarrow> time_zero L)
         | GoOther n \<Rightarrow> Value (config ! i))"
proof -
  have t: "\<And>b p. GetDefaultValue L (TimeContainer b p) =
      VTime (case List.find (\<lambda>f. time_Parse L f (defaultValue b) \<noteq> None) timeFormats of
                      Some f \<Rightarrow> the (time_Parse L f (defaultValue b))
                    | None \<Rightarrow> time_zero L)"
    by (simp only: GetDefaultValue_time parseTime_def parseTime_loop_find)
  from assms show ?thesis
    by (cases "Type (config ! i)")
       (auto simp: containerFor_def newBaseContainer_def Let_def t
          simp del: GetDefaultValue.simps(5)
          split: option.splits if_splits)
qed

text \<open>
  When \<open>GetEnvValue\<close> reports a value as present: the bool, int and float64 containers
  ask for a text that parses, the string and the time container for a text that is not empty.
\<close>

lemma GetEnvValue_present_iff:
  "snd (GetEnvValue L environ (BoolContainer b p)) \<longleftrightarrow>
     Getenv environ (envName b) \<noteq> [] \<and> ParseBool (Getenv environ (envName b)) \<noteq> None"
  "snd (GetEnvValue L environ (IntContainer b p)) \<longleftrightarrow>
     Getenv environ (envName b) \<noteq> [] \<and> Atoi (Getenv environ (envName b)) \<noteq> None"
  "snd (GetEnvValue L environ (Float64Container b p)) \<longleftrightarrow>
     Getenv environ (envName b) \<noteq> [] \<and> ParseFloat L (Getenv environ (envName b)) \<noteq> None"
  "snd (GetEnvValue L environ (StringContainer b p)) \<longleftrightarrow> Getenv environ (envName b) \<noteq> []"
  "snd (GetEnvValue L environ (TimeContainer b p)) \<longleftrightarrow> Getenv environ (envName b) \<noteq> []"
  by (auto simp: Let_def split: option.splits)

subsection \<open>The repository's tests, run on the model\<close>

text \<open>
  The struct, the sources and the expected values of \<open>configinator_test.go\<close>.
\<close>

lemma TestBeholdDefaultValues:
  "map_sum id (map Value \<circ> snd) (Behold stdlib Map.empty NoEnvFile [] freshFlags TestConfig)
     = Inr [VString ''localhost:8080'', VInt 9000, VBool False, VFloat (61 / 2),
            VTime (GTime 2023 1 1 0 0 0 0)]"
  by code_simp

lemma TestBeholdEnvironmentVariables:
  "map_sum id (map Value \<circ> snd)
     (Behold stdlib
        [''HOST'' \<mapsto> ''example.com:3000'', ''PORT'' \<mapsto> ''8080'', ''DEBUG'' \<mapsto> ''true'',
         ''TIMEOUT'' \<mapsto> ''45.7'', ''START_TIME'' \<mapsto> ''2024-01-01T12:00:00Z'']
        NoEnvFile [] freshFlags TestConfig)
     = Inr [VString ''example.com:3000'', VInt 8080, VBool True, VFloat (457 / 10),
            VTime (GTime 2024 1 1 12 0 0 0)]"
  by code_simp

lemma TestBeholdEnvFile:
  "map_sum id (map Value \<circ> snd)
     (Behold stdlib Map.empty
        (EnvFile [''HOST'' \<mapsto> ''envfile.com:5000'', ''PORT'' \<mapsto> ''7777'', ''DEBUG'' \<mapsto> ''true'',
                  ''TIMEOUT'' \<mapsto> ''60.0'', ''START_TIME'' \<mapsto> ''2025-01-01T00:00:00Z''])
        [] freshFlags TestConfig)
     = Inr [VString ''envfile.com:5000'', VInt 7777, VBool True, VFloat 60,
            VTime (GTime 2025 1 1 0 0 0 0)]"
  by code_simp

lemma TestBeholdCommandLineFlags:
  "map_sum id (map Value \<circ> snd)
     (Behold stdlib Map.empty NoEnvFile
        [FlagArg ''host'' ''flag.com:4000'', FlagArg ''port'' ''6666'', FlagArg ''debug'' ''true'',
         FlagArg ''timeout'' ''75.5'', FlagArg ''start'' ''2026-01-01T00:00:00Z'']
        freshFlags TestConfig)
     = Inr [VString ''flag.com:4000'', VInt 6666, VBool True, VFloat (151 / 2),
            VTime (GTime 2026 1 1 0 0 0 0)]"
  by code_simp

lemma TestBeholdPrecedenceWithoutFlag:
  "map_sum id (map Value \<circ> snd)
     (Behold stdlib [''HOST'' \<mapsto> ''env.com:2000''] (EnvFile [''HOST'' \<mapsto> ''envfile.com:3000''])
        [] freshFlags HostConfig)
     = Inr [VString ''envfile.com:3000'']"
  by code_simp

section \<open>The properties\<close>

text \<open>
  Claim C1. After a pass that returns, a settable field of a supported type that declares a
  flag name holds the value picked by the fixed precedence among the four sources of its
  container: the flag value if present, otherwise the env-file value if present, otherwise
  the environment value if present, otherwise the parsed default.
\<close>

theorem Behold_precedence:
  assumes "Behold L environ dot args fs config = Inr (fs', config')"
    and "i < length config"
    and "supported (Type (config ! i))"
    and "CanSet (config ! i)"
    and "Tag_Lookup (Tag (config ! i)) TagFlagName = Some fl"
  shows "\<exists>c fsx configx.
           New L fs config i (envFileOf dot) = Inr (Inr c, fsx, configx)
           \<and> Value (config' ! i) =
               precedence (GetFlagValue L fs' c) (GetEnvFileValue L c) (GetEnvValue L environ c)
                 (GetDefaultValue L c)"
proof -
  from assms(2-5) obtain c where c: "containerFor fs config i (envFileOf dot) = Some c"
    using containerFor_Some_iff[of fs config i "envFileOf dot"] by auto
  from Behold_New_Some[OF assms(1) c] obtain fsx configx where
    "New L fs config i (envFileOf dot) = Inr (Inr c, fsx, configx)"
    by blast
  moreover from Behold_result[OF assms(1)] assms(2) c
  have "Value (config' ! i) =
               precedence (GetFlagValue L fs' c) (GetEnvFileValue L c) (GetEnvValue L environ c)
                 (GetDefaultValue L c)" by simp
  ultimately show ?thesis by blast
qed

theorem Behold_precedence_witness:
  "Behold stdlib [''HOST'' \<mapsto> ''example.com:3000''] (EnvFile [''HOST'' \<mapsto> ''envfile.com:5000''])
       [FlagArg ''host'' ''flag.com:4000''] freshFlags HostConfig
     = Inr (\<lparr>formal = [(''host'', VString ''flag.com:4000'')], parsed = True\<rparr>,
            [\<lparr>Name = ''Host'', CanSet = True, Type = GoString,
               Tag = mkTag ''host'' ''HOST'' ''localhost:8080'',
               Value = VString ''flag.com:4000''\<rparr>])
   \<and> 0 < length HostConfig \<and> supported (Type (HostConfig ! 0)) \<and> CanSet (HostConfig ! 0)
   \<and> Tag_Lookup (Tag (HostConfig ! 0)) TagFlagName = Some ''host''
   \<and> (\<exists>c fsx configx.
         New stdlib freshFlags HostConfig 0 (envFileOf (EnvFile [''HOST'' \<mapsto> ''envfile.com:5000'']))
           = Inr (Inr c, fsx, configx)
         \<and> VString ''flag.com:4000'' =
             precedence
               (GetFlagValue stdlib \<lparr>formal = [(''host'', VString ''flag.com:4000'')], parsed = True\<rparr> c)
               (GetEnvFileValue stdlib c)
               (GetEnvValue stdlib [''HOST'' \<mapsto> ''example.com:3000''] c)
               (GetDefaultValue stdlib c))"
proof -
  have b: "Behold stdlib [''HOST'' \<mapsto> ''example.com:3000''] (EnvFile [''HOST'' \<mapsto> ''envfile.com:5000''])
       [FlagArg ''host'' ''flag.com:4000''] freshFlags HostConfig
     = Inr (\<lparr>formal = [(''host'', VString ''flag.com:4000'')], parsed = True\<rparr>,
            [\<lparr>Name = ''Host'', CanSet = True, Type = GoString,
               Tag = mkTag ''host'' ''HOST'' ''localhost:8080'',
               Value = VString ''flag.com:4000''\<rparr>])"
    by code_simp
  have h2: "0 < length HostConfig" by (simp add: HostConfig_def)
  have h3: "supported (Type (HostConfig ! 0))" by (simp add: HostConfig_def supported_def)
  have h4: "CanSet (HostConfig ! 0)" by (simp add: HostConfig_def)
  have h5: "Tag_Lookup (Tag (HostConfig ! 0)) TagFlagName = Some ''host''"
    by (simp add: HostConfig_def Tag_Lookup_def TagFlagName_def mkTag_def)
  from Behold_precedence[OF b h2 h3 h4 h5] b h2 h3 h4 h5 show ?thesis by simp
qed

text \<open>
  Claim C2 says that \<open>GetFlagValue\<close> reports a flag as present only if the flag was given
  on the command line and its parsed value differs from the computed default. For a
  timestamp the code compares the text of the flag with the text of the default, not the
  parsed times: with the default \<open>2023-01-01\<close> and the flag \<open>2023-01-01T00:00:00Z\<close> the
  flag is present although it parses to the very time the default parses to.
\<close>

theorem GetFlagValue_time_counterexample:
  "Behold stdlib Map.empty NoEnvFile [FlagArg ''start'' ''2023-01-01T00:00:00Z''] freshFlags DateConfig
     = Inr (\<lparr>formal = [(''start'', VString ''2023-01-01T00:00:00Z'')], parsed = True\<rparr>,
            [\<lparr>Name = ''StartTime'', CanSet = True, Type = GoTime,
               Tag = mkTag ''start'' ''START_TIME'' ''2023-01-01'',
               Value = VTime (GTime 2023 1 1 0 0 0 0)\<rparr>])
   \<and> GetFlagValue stdlib \<lparr>formal = [(''start'', VString ''2023-01-01T00:00:00Z'')], parsed = True\<rparr>
        (TimeContainer (mkBase ''start'' ''START_TIME'' ''2023-01-01'' Map.empty) (Some ''start''))
     = (VTime (GTime 2023 1 1 0 0 0 0), True)
   \<and> GetDefaultValue stdlib
        (TimeContainer (mkBase ''start'' ''START_TIME'' ''2023-01-01'' Map.empty) (Some ''start''))
     = VTime (GTime 2023 1 1 0 0 0 0)"
  by code_simp

text \<open>
  Claim C2, amended. After a pass that returns, \<open>GetFlagValue\<close> reports the flag of a
  container as present only if the flag is registered and its current value differs from
  the default: for bool, int and string the value is not the computed default, for
  float64 it is unequal to it under Go's \<open>!=\<close>, for a timestamp the text of the flag is
  not the text of the declared default. Whenever the computed default equals itself under
  \<open>!=\<close> (it is not NaN), presence further implies that the flag was given on the command
  line.
\<close>

theorem GetFlagValue_present_only_if:
  assumes "Behold L environ dot args fs config = Inr (fs', config')"
    and "New L fs config i (envFileOf dot) = Inr (Inr c, fsx, configx)"
    and "GetFlagValue L fs' c = (v, True)"
  shows "(case c of
            TimeContainer b p \<Rightarrow>
              (\<exists>x. deref fs' (flagName b) = Some (VString x) \<and> x \<noteq> defaultValue b
                    \<and> v = VTime (parseTime L x))
          | Float64Container b p \<Rightarrow>
              (\<exists>x d. deref fs' (flagName b) = Some (VFloat x)
                      \<and> GetDefaultValue L c = VFloat d \<and> float_neq L x d \<and> v = VFloat x)
          | _ \<Rightarrow> deref fs' (flagName (base c)) = Some v \<and> v \<noteq> GetDefaultValue L c)
       \<and> ((\<forall>d. GetDefaultValue L c = VFloat d \<longrightarrow> \<not> float_neq L d d)
             \<longrightarrow> flagName (base c) \<in> set (suppliedFlags args))"
proof -
  let ?ef = "envFileOf dot"
  from New_containerFor[OF assms(2)] have c: "containerFor fs config i ?ef = Some c" .
  note F = containerFor_fields[OF c]
  from c have i: "i < length config" by (simp add: containerFor_index)
  have np: "\<not> parsed fs"
  proof
    assume "parsed fs"
    with F have "flagValue c = None" by simp
    from GetFlagValue_nil[OF this, of L fs'] assms(3) show False by simp
  qed
  with F have p: "flagValue c = Some (flagName (base c))" by simp
  have A: "(case c of
            TimeContainer b p \<Rightarrow>
              (\<exists>x. deref fs' (flagName b) = Some (VString x) \<and> x \<noteq> defaultValue b
                    \<and> v = VTime (parseTime L x))
          | Float64Container b p \<Rightarrow>
              (\<exists>x d. deref fs' (flagName b) = Some (VFloat x)
                      \<and> GetDefaultValue L c = VFloat d \<and> float_neq L x d \<and> v = VFloat x)
          | _ \<Rightarrow> deref fs' (flagName (base c)) = Some v \<and> v \<noteq> GetDefaultValue L c)"
    using assms(3) p
    by (cases c) (auto split: option.splits val.splits if_splits)
  have B: "(\<forall>d. GetDefaultValue L c = VFloat d \<longrightarrow> \<not> float_neq L d d)
             \<longrightarrow> flagName (base c) \<in> set (suppliedFlags args)"
  proof (intro impI, rule ccontr)
    assume nan: "\<forall>d. GetDefaultValue L c = VFloat d \<longrightarrow> \<not> float_neq L d d"
      and ns: "flagName (base c) \<notin> set (suppliedFlags args)"
    from Behold_result[OF assms(1)] np i c ns
    have "deref fs' (flagName (base c)) = Some (registeredDefault L c)" by blast
    from GetFlagValue_at_default_absent[OF p this nan] assms(3) show False by simp
  qed
  from A B show ?thesis by blast
qed

theorem GetFlagValue_present_only_if_witness:
  "Behold stdlib Map.empty NoEnvFile [FlagArg ''host'' ''flag.com:4000''] freshFlags HostConfig
     = Inr (\<lparr>formal = [(''host'', VString ''flag.com:4000'')], parsed = True\<rparr>,
            [\<lparr>Name = ''Host'', CanSet = True, Type = GoString,
               Tag = mkTag ''host'' ''HOST'' ''localhost:8080'',
               Value = VString ''flag.com:4000''\<rparr>])
   \<and> New stdlib freshFlags HostConfig 0 (envFileOf NoEnvFile)
     = Inr (Inr (StringContainer
                   \<lparr>defaultValue = ''localhost:8080'', description = [], envFile = Map.empty,
                      envName = ''HOST'', fieldName = ''Host'', fieldIndex = 0,
                      flagName = ''host''\<rparr> (Some ''host'')),
            \<lparr>formal = [(''host'', VString ''localhost:8080'')], parsed = False\<rparr>,
            [\<lparr>Name = ''Host'', CanSet = True, Type = GoString,
               Tag = mkTag ''host'' ''HOST'' ''localhost:8080'',
               Value = VString ''localhost:8080''\<rparr>])
   \<and> GetFlagValue stdlib \<lparr>formal = [(''host'', VString ''flag.com:4000'')], parsed = True\<rparr>
        (StringContainer
           \<lparr>defaultValue = ''localhost:8080'', description = [], envFile = Map.empty,
              envName = ''HOST'', fieldName = ''Host'', fieldIndex = 0,
              flagName = ''host''\<rparr> (Some ''host''))
     = (VString ''flag.com:4000'', True)
   \<and> ''host'' \<in> set (suppliedFlags [FlagArg ''host'' ''flag.com:4000''])
   \<and> VString ''flag.com:4000'' \<noteq>
       (GetDefaultValue stdlib
         (StringContainer
           \<lparr>defaultValue = ''localhost:8080'', description = [], envFile = Map.empty,
              envName = ''HOST'', fieldName = ''Host'', fieldIndex = 0,
              flagName = ''host''\<rparr> (Some ''host'')) :: (rat, gtime) val)"
proof -
  let ?c = "StringContainer
           \<lparr>defaultValue = ''localhost:8080'', description = [], envFile = Map.empty,
              envName = ''HOST'', fieldName = ''Host'', fieldIndex = 0,
              flagName = ''host''\<rparr> (Some ''host'')"
  let ?fs' = "\<lparr>formal = [(''host'', VString ''flag.com:4000'')], parsed = True\<rparr> :: (rat, gtime) FlagSet"
  have b: "Behold stdlib Map.empty NoEnvFile [FlagArg ''host'' ''flag.com:4000''] freshFlags HostConfig
     = Inr (?fs',
            [\<lparr>Name = ''Host'', CanSet = True, Type = GoString,
               Tag = mkTag ''host'' ''HOST'' ''localhost:8080'',
               Value = VString ''flag.com:4000''\<rparr>])"
    by code_simp
  have n: "New stdlib freshFlags HostConfig 0 (envFileOf NoEnvFile)
     = Inr (Inr ?c,
            \<lparr>formal = [(''host'', VString ''localhost:8080'')], parsed = False\<rparr>,
            [\<lparr>Name = ''Host'', CanSet = True, Type = GoString,
               Tag = mkTag ''host'' ''HOST'' ''localhost:8080'',
               Value = VString ''localhost:8080''\<rparr>])"
    by (simp add: HostConfig_def New_def NewString_def newContainer_def newBaseContainer_def
        freshFlags_def flag_Var_def mkTag_def Tag_Lookup_def Tag_Get_def TagFlagName_def
        TagDefaultValue_def TagEnvName_def TagDescription_def envFileOf_def SetConfigValue_def)
  have g: "GetFlagValue stdlib ?fs' ?c = (VString ''flag.com:4000'', True)"
    by (simp add: deref_def)
  from GetFlagValue_present_only_if[OF b n g] b n g show ?thesis
    by (simp add: deref_def)
qed

text \<open>
  Claim C3 says that a value that does not parse at the type of the field counts as
  absent. The int container does so; the time container does not: with \<open>START_TIME\<close> set
  to \<open>garbage\<close>, which none of the six layouts parses, \<open>GetEnvValue\<close> reports the zero
  time as present, and the pass writes the zero time over the default
  \<open>2023-01-01T00:00:00Z\<close>.
\<close>

theorem TimeContainer_unparsable_env_is_present:
  "GetEnvValue stdlib [''START_TIME'' \<mapsto> ''garbage'']
       (TimeContainer (mkBase ''start'' ''START_TIME'' ''2023-01-01T00:00:00Z'' Map.empty) (Some ''start''))
     = (VTime std_time_zero, True)
   \<and> list_all (\<lambda>f. time_Parse stdlib f ''garbage'' = None) timeFormats
   \<and> Behold stdlib [''START_TIME'' \<mapsto> ''garbage''] NoEnvFile [] freshFlags StartConfig
     = Inr (\<lparr>formal = [(''start'', VString ''2023-01-01T00:00:00Z'')], parsed = False\<rparr>,
            [\<lparr>Name = ''StartTime'', CanSet = True, Type = GoTime,
               Tag = mkTag ''start'' ''START_TIME'' ''2023-01-01T00:00:00Z'',
               Value = VTime std_time_zero\<rparr>])
   \<and> Behold stdlib Map.empty NoEnvFile [] freshFlags StartConfig
     = Inr (\<lparr>formal = [(''start'', VString ''2023-01-01T00:00:00Z'')], parsed = False\<rparr>,
            [\<lparr>Name = ''StartTime'', CanSet = True, Type = GoTime,
               Tag = mkTag ''start'' ''START_TIME'' ''2023-01-01T00:00:00Z'',
               Value = VTime (GTime 2023 1 1 0 0 0 0)\<rparr>])
   \<and> GetEnvValue stdlib [''PORT'' \<mapsto> ''garbage'']
       (IntContainer (mkBase ''port'' ''PORT'' ''9000'' Map.empty) (Some ''port''))
     = (VInt 0, False)"
  by code_simp

text \<open>
  Claim C4 says that \<open>GetEnvFileValue\<close> follows the rules of \<open>GetEnvValue\<close>, an empty
  value being absent. For a string field an entry of the env file with an empty value is
  present, while the same variable set to the empty string in the environment is absent.
\<close>

theorem GetEnvFileValue_empty_counterexample:
  "GetEnvFileValue stdlib
       (StringContainer (mkBase ''host'' ''HOST'' ''localhost:8080'' [''HOST'' \<mapsto> []]) (Some ''host''))
     = (VString [], True)
   \<and> GetEnvValue stdlib [''HOST'' \<mapsto> []]
       (StringContainer (mkBase ''host'' ''HOST'' ''localhost:8080'' [''HOST'' \<mapsto> []]) (Some ''host''))
     = (VString [], False)"
  by code_simp

text \<open>
  Claim C4, amended. \<open>GetEnvFileValue\<close> reports a name that is missing from the file
  mapping as absent, for every type. For bool and int it returns exactly what
  \<open>GetEnvValue\<close> returns when the file mapping is read as the environment (a missing,
  empty or unparsable value is absent), and so it does for float64 provided the empty
  string does not parse as a float. For a string every value in the mapping is present,
  the empty one included.
\<close>

theorem GetEnvFileValue_rules:
  "(envFile (base c) (envName (base c)) = None \<longrightarrow> snd (GetEnvFileValue L c) = False)
   \<and> GetEnvFileValue L (BoolContainer b p) = GetEnvValue L (envFile b) (BoolContainer b p)
   \<and> GetEnvFileValue L (IntContainer b p) = GetEnvValue L (envFile b) (IntContainer b p)
   \<and> (ParseFloat L [] = None \<longrightarrow>
        GetEnvFileValue L (Float64Container b p) = GetEnvValue L (envFile b) (Float64Container b p))
   \<and> GetEnvFileValue L (StringContainer b p) =
        (case envFile b (envName b) of
           Some v \<Rightarrow> (VString v, True)
         | None \<Rightarrow> (VString [], False))"
proof -
  have 1: "envFile (base c) (envName (base c)) = None \<longrightarrow> snd (GetEnvFileValue L c) = False"
    by (simp add: GetEnvFileValue_missing)
  have 2: "GetEnvFileValue L (BoolContainer b p) = GetEnvValue L (envFile b) (BoolContainer b p)"
    by (simp add: Getenv_def ParseBool_empty split: option.splits)
  have 3: "GetEnvFileValue L (IntContainer b p) = GetEnvValue L (envFile b) (IntContainer b p)"
    by (simp add: Getenv_def Atoi_empty split: option.splits)
  have 4: "ParseFloat L [] = None \<longrightarrow>
        GetEnvFileValue L (Float64Container b p) = GetEnvValue L (envFile b) (Float64Container b p)"
    by (simp add: Getenv_def split: option.splits)
  have 5: "GetEnvFileValue L (StringContainer b p) =
        (case envFile b (envName b) of
           Some v \<Rightarrow> (VString v, True)
         | None \<Rightarrow> (VString [], False))"
    by simp
  from 1 2 3 4 5 show ?thesis by blast
qed

theorem GetEnvFileValue_rules_witness:
  "envFile (base (IntContainer (mkBase ''port'' ''PORT'' ''9000'' [''HOST'' \<mapsto> ''h'']) None))
       (envName (base (IntContainer (mkBase ''port'' ''PORT'' ''9000'' [''HOST'' \<mapsto> ''h'']) None)))
     = None
   \<and> snd (GetEnvFileValue stdlib
            (IntContainer (mkBase ''port'' ''PORT'' ''9000'' [''HOST'' \<mapsto> ''h'']) None)) = False
   \<and> ParseFloat stdlib [] = None
   \<and> GetEnvFileValue stdlib
        (Float64Container (mkBase ''timeout'' ''TIMEOUT'' ''30.5'' [''TIMEOUT'' \<mapsto> ''4x'']) None)
      = (VFloat 0, False)"
proof -
  let ?c = "IntContainer (mkBase ''port'' ''PORT'' ''9000'' [''HOST'' \<mapsto> ''h'']) None"
  let ?b = "mkBase ''timeout'' ''TIMEOUT'' ''30.5'' [''TIMEOUT'' \<mapsto> ''4x'']"
  have h1: "envFile (base ?c) (envName (base ?c)) = None" by (simp add: mkBase_def)
  have h2: "ParseFloat stdlib [] = None" by code_simp
  have e: "GetEnvValue stdlib (envFile ?b) (Float64Container ?b None) = (VFloat 0, False)"
    by code_simp
  from GetEnvFileValue_rules[of ?c stdlib] h1
  have r1: "snd (GetEnvFileValue stdlib ?c) = False" by blast
  from GetEnvFileValue_rules[of ?c stdlib ?b None] h2 e
  have r2: "GetEnvFileValue stdlib (Float64Container ?b None) = (VFloat 0, False)" by simp
  from h1 r1 h2 r2 show ?thesis by blast
qed

text \<open>
  Claim C5 says that a field without a flag name, or of an unsupported type, makes the
  whole pass fail. \<open>New\<close> returns an error for such a field, but \<open>Behold\<close> drops it: on a
  struct with a \<open>time.Duration\<close> field and a field without \<open>flag\<close> tag the pass returns,
  having resolved the remaining field.
\<close>

theorem Behold_drops_errors_counterexample:
  "New stdlib freshFlags MixedConfig 1 Map.empty
     = Inr (Inl (ErrUnsupportedFieldType ''unsupported field type: time.duration''),
            freshFlags, MixedConfig)
   \<and> New stdlib freshFlags MixedConfig 2 Map.empty
     = Inr (Inl ErrNoFlagName, freshFlags, MixedConfig)
   \<and> Behold stdlib Map.empty NoEnvFile [] freshFlags MixedConfig
     = Inr (\<lparr>formal = [(''host'', VString ''localhost:8080'')], parsed = False\<rparr>,
            [\<lparr>Name = ''Host'', CanSet = True, Type = GoString,
               Tag = mkTag ''host'' ''HOST'' ''localhost:8080'',
               Value = VString ''localhost:8080''\<rparr>,
             \<lparr>Name = ''Duration'', CanSet = True, Type = GoOther ''time.Duration'',
               Tag = mkTag ''d'' ''DURATION'' ''34s'', Value = VOther ''0s''\<rparr>,
             \<lparr>Name = ''Secret'', CanSet = True, Type = GoString,
               Tag = [(''env'', ''SECRET''), (''default'', ''hunter2'')], Value = VString []\<rparr>])"
  proof -
  have 1: "New stdlib freshFlags MixedConfig 1 Map.empty
     = Inr (Inl (ErrUnsupportedFieldType ''unsupported field type: time.duration''),
            freshFlags, MixedConfig)"
  proof -
    have l: "ToLower stdlib ''time.Duration'' = ''time.duration''" by code_simp
    show ?thesis
      by (simp add: New_def MixedConfig_def type_String_def l)
  qed
  have 2: "New stdlib freshFlags MixedConfig 2 Map.empty
     = Inr (Inl ErrNoFlagName, freshFlags, MixedConfig)"
    by (simp add: New_def NewString_def newContainer_def newBaseContainer_def MixedConfig_def
        Tag_Lookup_def TagFlagName_def)
  have 3: "Behold stdlib Map.empty NoEnvFile [] freshFlags MixedConfig
     = Inr (\<lparr>formal = [(''host'', VString ''localhost:8080'')], parsed = False\<rparr>,
            [\<lparr>Name = ''Host'', CanSet = True, Type = GoString,
               Tag = mkTag ''host'' ''HOST'' ''localhost:8080'',
               Value = VString ''localhost:8080''\<rparr>,
             \<lparr>Name = ''Duration'', CanSet = True, Type = GoOther ''time.Duration'',
               Tag = mkTag ''d'' ''DURATION'' ''34s'', Value = VOther ''0s''\<rparr>,
             \<lparr>Name = ''Secret'', CanSet = True, Type = GoString,
               Tag = [(''env'', ''SECRET''), (''default'', ''hunter2'')], Value = VString []\<rparr>])"
    by code_simp
  from 1 2 3 show ?thesis by blast
qed

text \<open>
  Claim C5, amended. For a settable field of a supported type without a \<open>flag\<close> tag
  \<open>New\<close> returns the error \<open>ErrNoFlagName\<close>, and for a field of any other type the
  error naming its lower-cased type, in both cases leaving the flag set and the struct as
  they are. \<open>Behold\<close> does not surface the error: the first loop stores a nil container
  for the field and goes on as it would without it, and the second loop passes over a nil
  container.
\<close>

theorem New_error_is_dropped:
  "(i < length config \<and> CanSet (config ! i) \<and> supported (Type (config ! i))
      \<and> Tag_Lookup (Tag (config ! i)) TagFlagName = None
      \<longrightarrow> New L fs config i ef = Inr (Inl ErrNoFlagName, fs, config))
   \<and> (i < length config \<and> Type (config ! i) = GoOther n
      \<longrightarrow> New L fs config i ef =
            Inr (Inl (ErrUnsupportedFieldType (''unsupported field type: '' @ ToLower L n)),
                 fs, config))
   \<and> (New L fs config i ef = Inr (Inl e, fs, config)
      \<longrightarrow> newContainers L ef (i # rest) fs config =
            (case newContainers L ef rest fs config of
               Inl a \<Rightarrow> Inl a
             | Inr (cs, st) \<Rightarrow> Inr (None # cs, st)))
   \<and> applyContainers L environ fs2 (None # cs2) config2 = applyContainers L environ fs2 cs2 config2"
proof -
  have 1: "i < length config \<and> CanSet (config ! i) \<and> supported (Type (config ! i))
      \<and> Tag_Lookup (Tag (config ! i)) TagFlagName = None
      \<longrightarrow> New L fs config i ef = Inr (Inl ErrNoFlagName, fs, config)"
    by (cases "Type (config ! i)")
      (auto simp: New_def NewBool_def NewInt_def NewFloat64_def NewString_def NewTime_def
        newContainer_def newBaseContainer_def supported_def)
  have 2: "i < length config \<and> Type (config ! i) = GoOther n
      \<longrightarrow> New L fs config i ef =
            Inr (Inl (ErrUnsupportedFieldType (''unsupported field type: '' @ ToLower L n)),
                 fs, config)"
    by (auto simp: New_def type_String_def)
  have 3: "New L fs config i ef = Inr (Inl e, fs, config)
      \<longrightarrow> newContainers L ef (i # rest) fs config =
            (case newContainers L ef rest fs config of
               Inl a \<Rightarrow> Inl a
             | Inr (cs, st) \<Rightarrow> Inr (None # cs, st))"
    by (auto split: sum.splits)
  have 4: "applyContainers L environ fs2 (None # cs2) config2 = applyContainers L environ fs2 cs2 config2"
    by simp
  from 1 2 3 4 show ?thesis by blast
qed

theorem New_error_is_dropped_witness:
  "2 < length MixedConfig \<and> CanSet (MixedConfig ! 2) \<and> supported (Type (MixedConfig ! 2))
   \<and> Tag_Lookup (Tag (MixedConfig ! 2)) TagFlagName = None
   \<and> New stdlib freshFlags MixedConfig 2 Map.empty = Inr (Inl ErrNoFlagName, freshFlags, MixedConfig)
   \<and> newContainers stdlib Map.empty [2] freshFlags MixedConfig = Inr ([None], freshFlags, MixedConfig)"
proof -
  have h: "2 < length MixedConfig \<and> CanSet (MixedConfig ! 2) \<and> supported (Type (MixedConfig ! 2))
   \<and> Tag_Lookup (Tag (MixedConfig ! 2)) TagFlagName = None"
    by (simp add: MixedConfig_def supported_def Tag_Lookup_def TagFlagName_def)
  from New_error_is_dropped[of 2 MixedConfig stdlib freshFlags Map.empty] h
  have n: "New stdlib freshFlags MixedConfig 2 Map.empty = Inr (Inl ErrNoFlagName, freshFlags, MixedConfig)"
    by blast
  from New_error_is_dropped[of 2 MixedConfig stdlib freshFlags Map.empty _ ErrNoFlagName "[]"] n
  have "newContainers stdlib Map.empty [2] freshFlags MixedConfig = Inr ([None], freshFlags, MixedConfig)"
    by simp
  with h n show ?thesis by blast
qed

text \<open>
  Claim C6. When the environment variable of a field is not set, the env file has no entry
  for it and its flag is not on the command line, the field holds after the pass the text
  of its \<open>default\<close> tag parsed at the type of the field: by \<open>strconv.ParseBool\<close>,
  \<open>strconv.Atoi\<close> or \<open>strconv.ParseFloat\<close> (the zero value when the text does not
  parse), the text itself for a string, and for a timestamp the result of the first layout
  that parses the text (the zero time when none does). This is the value
  \<open>GetDefaultValue\<close> of the field's container returns.
\<close>

theorem Behold_default_without_overrides:
  assumes "Behold L environ dot args fs config = Inr (fs', config')"
    and "i < length config"
    and "supported (Type (config ! i))"
    and "CanSet (config ! i)"
    and "Tag_Lookup (Tag (config ! i)) TagFlagName = Some fl"
    and "environ (Tag_Get (Tag (config ! i)) TagEnvName) = None"
    and "envFileOf dot (Tag_Get (Tag (config ! i)) TagEnvName) = None"
    and "fl \<notin> set (suppliedFlags args)"
  shows "Value (config' ! i) =
     (let d = Tag_Get (Tag (config ! i)) TagDefaultValue
      in case Type (config ! i) of
           GoBool \<Rightarrow> VBool (case ParseBool d of Some r \<Rightarrow> r | None \<Rightarrow> False)
         | GoInt \<Rightarrow> VInt (case Atoi d of Some r \<Rightarrow> r | None \<Rightarrow> 0)
         | GoFloat64 \<Rightarrow> VFloat (case ParseFloat L d of Some r \<Rightarrow> r | None \<Rightarrow> float_zero L)
         | GoString \<Rightarrow> VString d
         | GoTime \<Rightarrow>
             VTime (case List.find (\<lambda>f. time_Parse L f d \<noteq> None) timeFormats of
                      Some f \<Rightarrow> the (time_Parse L f d)
                    | None \<Rightarrow> time_zero L)
         | GoOther n \<Rightarrow> Value (config ! i))
   \<and> (\<exists>c fsx configx.
           New L fs config i (envFileOf dot) = Inr (Inr c, fsx, configx)
           \<and> Value (config' ! i) = GetDefaultValue L c)"
proof -
  from assms(2-5) obtain c where c: "containerFor fs config i (envFileOf dot) = Some c"
    using containerFor_Some_iff[of fs config i "envFileOf dot"] by auto
  note F = containerFor_fields[OF c]
  from F assms(5) have fl: "flagName (base c) = fl" by simp
  from Behold_New_Some[OF assms(1) c] obtain fsx configx where
    n: "New L fs config i (envFileOf dot) = Inr (Inr c, fsx, configx)" by blast
  note R = Behold_result[OF assms(1)]
  from R assms(2) c have v: "Value (config' ! i) =
      precedence (GetFlagValue L fs' c) (GetEnvFileValue L c) (GetEnvValue L environ c)
        (GetDefaultValue L c)" by simp
  have e: "snd (GetEnvValue L environ c) = False"
    using F assms(6) by (intro GetEnvValue_unset) (simp add: Getenv_def)
  have f: "snd (GetEnvFileValue L c) = False"
    using F assms(7) by (intro GetEnvFileValue_missing) simp
  have g: "snd (GetFlagValue L fs' c) \<longrightarrow> fst (GetFlagValue L fs' c) = GetDefaultValue L c"
  proof (cases "parsed fs")
    case True
    with F have "flagValue c = None" by simp
    then show ?thesis by (simp add: GetFlagValue_nil)
  next
    case False
    with F have p: "flagValue c = Some (flagName (base c))" by simp
    from assms(8) fl have "flagName (base c) \<notin> set (suppliedFlags args)" by simp
    with R False assms(2) c
    have "deref fs' (flagName (base c)) = Some (registeredDefault L c)" by blast
    from GetFlagValue_at_default[OF p this] show ?thesis by blast
  qed
  from v e f g have d: "Value (config' ! i) = GetDefaultValue L c"
    by (auto simp: precedence_def)
  with n have B: "\<exists>c fsx configx.
           New L fs config i (envFileOf dot) = Inr (Inr c, fsx, configx)
           \<and> Value (config' ! i) = GetDefaultValue L c" by blast
  from d containerFor_default_value[OF c, of L] B show ?thesis by simp
qed

theorem Behold_default_without_overrides_witness:
  "Behold stdlib Map.empty NoEnvFile [Positional ''serve''] freshFlags PortConfig
     = Inr (\<lparr>formal = [(''port'', VInt 9000)], parsed = True\<rparr>,
            [\<lparr>Name = ''Port'', CanSet = True, Type = GoInt,
               Tag = mkTag ''port'' ''PORT'' ''9000'', Value = VInt 9000\<rparr>])
   \<and> 0 < length PortConfig \<and> supported (Type (PortConfig ! 0)) \<and> CanSet (PortConfig ! 0)
   \<and> Tag_Lookup (Tag (PortConfig ! 0)) TagFlagName = Some ''port''
   \<and> Map.empty (Tag_Get (Tag (PortConfig ! 0)) TagEnvName) = (None :: string option)
   \<and> envFileOf NoEnvFile (Tag_Get (Tag (PortConfig ! 0)) TagEnvName) = None
   \<and> ''port'' \<notin> set (suppliedFlags [Positional ''serve''])
   \<and> Tag_Get (Tag (PortConfig ! 0)) TagDefaultValue = ''9000''
   \<and> Atoi ''9000'' = Some 9000
   \<and> (VInt 9000 :: (rat, gtime) val) = VInt (case Atoi ''9000'' of Some r \<Rightarrow> r | None \<Rightarrow> 0)"
proof -
  have b: "Behold stdlib Map.empty NoEnvFile [Positional ''serve''] freshFlags PortConfig
     = Inr (\<lparr>formal = [(''port'', VInt 9000)], parsed = True\<rparr>,
            [\<lparr>Name = ''Port'', CanSet = True, Type = GoInt,
               Tag = mkTag ''port'' ''PORT'' ''9000'', Value = VInt 9000\<rparr>])"
    by code_simp
  have h2: "0 < length PortConfig" by (simp add: PortConfig_def)
  have h3: "supported (Type (PortConfig ! 0))" by (simp add: PortConfig_def supported_def)
  have h4: "CanSet (PortConfig ! 0)" by (simp add: PortConfig_def)
  have h5: "Tag_Lookup (Tag (PortConfig ! 0)) TagFlagName = Some ''port''"
    by (simp add: PortConfig_def Tag_Lookup_def TagFlagName_def mkTag_def)
  have h6: "Map.empty (Tag_Get (Tag (PortConfig ! 0)) TagEnvName) = (None :: string option)"
    by simp
  have h7: "envFileOf NoEnvFile (Tag_Get (Tag (PortConfig ! 0)) TagEnvName) = None"
    by (simp add: envFileOf_def)
  have h8: "''port'' \<notin> set (suppliedFlags [Positional ''serve''])" by simp
  have d: "Tag_Get (Tag (PortConfig ! 0)) TagDefaultValue = ''9000''"
    by (simp add: PortConfig_def Tag_Get_def TagDefaultValue_def mkTag_def)
  have t: "Type (PortConfig ! 0) = GoInt" by (simp add: PortConfig_def)
  have a: "Atoi ''9000'' = Some 9000" by code_simp
  from Behold_default_without_overrides[OF b h2 h3 h4 h5 h6 h7 h8]
  have "(VInt 9000 :: (rat, gtime) val) = VInt (case Atoi ''9000'' of Some r \<Rightarrow> r | None \<Rightarrow> 0)"
    by (simp add: d t)
  with b h2 h3 h4 h5 h6 h7 h8 d a show ?thesis by blast
qed

text \<open>
  Claim C7. \<open>GetDefaultValue\<close> parses the declared default string at the type of the
  container and gives the zero value of that type (\<open>false\<close>, \<open>0\<close>, \<open>0.0\<close>, the zero
  time) when the string does not parse; a string default is the declared string itself.
  It is a total function into the values: it has no way to fail.
\<close>

theorem GetDefaultValue_parse_or_zero:
  "GetDefaultValue L (BoolContainer b p) =
     VBool (case ParseBool (defaultValue b) of Some r \<Rightarrow> r | None \<Rightarrow> False)
   \<and> GetDefaultValue L (IntContainer b p) =
     VInt (case Atoi (defaultValue b) of Some r \<Rightarrow> r | None \<Rightarrow> 0)
   \<and> GetDefaultValue L (Float64Container b p) =
     VFloat (case ParseFloat L (defaultValue b) of Some r \<Rightarrow> r | None \<Rightarrow> float_zero L)
   \<and> GetDefaultValue L (StringContainer b p) = VString (defaultValue b)
   \<and> GetDefaultValue L (TimeContainer b p) = VTime (parseTime L (defaultValue b))
   \<and> ((\<forall>f\<in>set timeFormats. time_Parse L f (defaultValue b) = None) \<longrightarrow>
        GetDefaultValue L (TimeContainer b p) = VTime (time_zero L))"
proof -
  have "(\<forall>f\<in>set timeFormats. time_Parse L f (defaultValue b) = None) \<longrightarrow>
        GetDefaultValue L (TimeContainer b p) = VTime (time_zero L)"
    by (simp add: isTime_def isTime_loop_iff)
  moreover have "GetDefaultValue L (TimeContainer b p) = VTime (parseTime L (defaultValue b))"
    by (rule GetDefaultValue_time)
  ultimately show ?thesis by (simp split: option.splits)
qed

theorem GetDefaultValue_parse_or_zero_witness:
  "list_all
     (\<lambda>f. time_Parse stdlib f (defaultValue (mkBase ''start'' ''START_TIME'' ''soon'' Map.empty)) = None)
     timeFormats
   \<and> GetDefaultValue stdlib (TimeContainer (mkBase ''start'' ''START_TIME'' ''soon'' Map.empty) None)
       = VTime (time_zero stdlib)
   \<and> GetDefaultValue stdlib (IntContainer (mkBase ''port'' ''PORT'' ''90x0'' Map.empty) None)
       = VInt 0
   \<and> GetDefaultValue stdlib (IntContainer (mkBase ''port'' ''PORT'' ''9000'' Map.empty) None)
       = VInt 9000"
proof -
  have h: "list_all
     (\<lambda>f. time_Parse stdlib f (defaultValue (mkBase ''start'' ''START_TIME'' ''soon'' Map.empty)) = None)
     timeFormats"
    by code_simp
  then have "\<forall>f\<in>set timeFormats.
      time_Parse stdlib f (defaultValue (mkBase ''start'' ''START_TIME'' ''soon'' Map.empty)) = None"
    by (simp add: list_all_iff)
  with GetDefaultValue_parse_or_zero[of stdlib "mkBase ''start'' ''START_TIME'' ''soon'' Map.empty" None]
  have t: "GetDefaultValue stdlib (TimeContainer (mkBase ''start'' ''START_TIME'' ''soon'' Map.empty) None)
       = VTime (time_zero stdlib)"
    by blast
  have a: "Atoi ''90x0'' = None" by code_simp
  have b: "Atoi ''9000'' = Some 9000" by code_simp
  from GetDefaultValue_parse_or_zero[of stdlib "mkBase ''port'' ''PORT'' ''90x0'' Map.empty" None] a
  have i0: "GetDefaultValue stdlib (IntContainer (mkBase ''port'' ''PORT'' ''90x0'' Map.empty) None)
       = VInt 0"
    by (simp add: mkBase_def)
  from GetDefaultValue_parse_or_zero[of stdlib "mkBase ''port'' ''PORT'' ''9000'' Map.empty" None] b
  have i1: "GetDefaultValue stdlib (IntContainer (mkBase ''port'' ''PORT'' ''9000'' Map.empty) None)
       = VInt 9000"
    by (simp add: mkBase_def)
  from h t i0 i1 show ?thesis by blast
qed

text \<open>
  Claim C8. \<open>parseTime\<close> tries the six layouts in their fixed order (date; date, space,
  time; date \<open>T\<close> time; the same followed by \<open>Z\<close>; by a zone abbreviation; by a
  numeric offset). The first layout that parses the text gives the result, and the result
  is the zero time when none does.
\<close>

theorem parseTime_layout_order:
  "timeFormats =
     [''2006-01-02'', ''2006-01-02 15:04:05'', ''2006-01-02T15:04:05'',
      ''2006-01-02T15:04:05Z'', ''2006-01-02T15:04:05 MST'', ''2006-01-02T15:04:05-0700'']
   \<and> (\<forall>i<length timeFormats. \<forall>t.
         time_Parse L (timeFormats ! i) v = Some t
         \<and> (\<forall>j<i. time_Parse L (timeFormats ! j) v = None) \<longrightarrow> parseTime L v = t)
   \<and> ((\<forall>f\<in>set timeFormats. time_Parse L f v = None) \<longrightarrow> parseTime L v = time_zero L)"
proof -
  have "\<forall>i<length timeFormats. \<forall>t.
         time_Parse L (timeFormats ! i) v = Some t
         \<and> (\<forall>j<i. time_Parse L (timeFormats ! j) v = None) \<longrightarrow> parseTime L v = t"
    unfolding parseTime_def using parseTime_loop_first[of _ timeFormats L v] by blast
  moreover have "(\<forall>f\<in>set timeFormats. time_Parse L f v = None) \<longrightarrow> parseTime L v = time_zero L"
    unfolding parseTime_def using parseTime_loop_none[of timeFormats L v] by blast
  moreover have "timeFormats =
     [''2006-01-02'', ''2006-01-02 15:04:05'', ''2006-01-02T15:04:05'',
      ''2006-01-02T15:04:05Z'', ''2006-01-02T15:04:05 MST'', ''2006-01-02T15:04:05-0700'']"
    by (simp add: timeFormats_def)
  ultimately show ?thesis by blast
qed

theorem parseTime_layout_order_witness:
  "3 < length timeFormats
   \<and> time_Parse stdlib (timeFormats ! 0) ''2025-01-02T13:14:15Z'' = None
   \<and> time_Parse stdlib (timeFormats ! 1) ''2025-01-02T13:14:15Z'' = None
   \<and> time_Parse stdlib (timeFormats ! 2) ''2025-01-02T13:14:15Z'' = None
   \<and> time_Parse stdlib (timeFormats ! 3) ''2025-01-02T13:14:15Z'' = Some (GTime 2025 1 2 13 14 15 0)
   \<and> parseTime stdlib ''2025-01-02T13:14:15Z'' = GTime 2025 1 2 13 14 15 0"
proof -
  have h1: "3 < length timeFormats" by (simp add: timeFormats_def)
  have h2: "time_Parse stdlib (timeFormats ! 3) ''2025-01-02T13:14:15Z'' = Some (GTime 2025 1 2 13 14 15 0)"
    by code_simp
  have a0: "time_Parse stdlib (timeFormats ! 0) ''2025-01-02T13:14:15Z'' = None" by code_simp
  have a1: "time_Parse stdlib (timeFormats ! 1) ''2025-01-02T13:14:15Z'' = None" by code_simp
  have a2: "time_Parse stdlib (timeFormats ! 2) ''2025-01-02T13:14:15Z'' = None" by code_simp
  have h3: "\<forall>j<3. time_Parse stdlib (timeFormats ! j) ''2025-01-02T13:14:15Z'' = None"
  proof (intro allI impI)
    fix j :: nat assume "j < 3"
    then consider "j = 0" | "j = 1" | "j = 2" by linarith
    then show "time_Parse stdlib (timeFormats ! j) ''2025-01-02T13:14:15Z'' = None"
      using a0 a1 a2 by cases simp_all
  qed
  from parseTime_layout_order[of stdlib "''2025-01-02T13:14:15Z''"] h1 h2 h3
  have "parseTime stdlib ''2025-01-02T13:14:15Z'' = GTime 2025 1 2 13 14 15 0" by blast
  with h1 h2 a0 a1 a2 show ?thesis by blast
qed

text \<open>
  Claim C9 says that a second pass in the same process, on a fresh struct and with the same
  sources, resolves the same values. With \<open>-host=flag.com:4000\<close> on the command line the
  first pass resolves \<open>Host\<close> to the flag value; the second pass finds the flags parsed,
  registers none, and resolves \<open>Host\<close> to its default.
\<close>

theorem Behold_second_pass_counterexample:
  "Behold stdlib Map.empty NoEnvFile [FlagArg ''host'' ''flag.com:4000''] freshFlags HostConfig
     = Inr (\<lparr>formal = [(''host'', VString ''flag.com:4000'')], parsed = True\<rparr>,
            [\<lparr>Name = ''Host'', CanSet = True, Type = GoString,
               Tag = mkTag ''host'' ''HOST'' ''localhost:8080'',
               Value = VString ''flag.com:4000''\<rparr>])
   \<and> Behold stdlib Map.empty NoEnvFile [FlagArg ''host'' ''flag.com:4000'']
       \<lparr>formal = [(''host'', VString ''flag.com:4000'')], parsed = True\<rparr> HostConfig
     = Inr (\<lparr>formal = [(''host'', VString ''flag.com:4000'')], parsed = True\<rparr>,
            [\<lparr>Name = ''Host'', CanSet = True, Type = GoString,
               Tag = mkTag ''host'' ''HOST'' ''localhost:8080'',
               Value = VString ''localhost:8080''\<rparr>])"
  by code_simp

text \<open>
  Claim C9, amended. If the first pass returns with the flags parsed and none of its
  containers reports a flag value as present, then the second pass on a fresh struct with
  the same sources returns with the same flag set and the same struct as the first.
\<close>

theorem Behold_second_pass_same:
  assumes "Behold L environ dot args fs config = Inr (fs1, config1)"
    and "parsed fs1"
    and "\<forall>i<length config. \<forall>c fsx configx.
           New L fs config i (envFileOf dot) = Inr (Inr c, fsx, configx)
             \<longrightarrow> \<not> snd (GetFlagValue L fs1 c)"
  shows "Behold L environ dot args fs1 config = Inr (fs1, config1)"
proof -
  let ?ef = "envFileOf dot"
  from Behold_unfold[OF assms(1)] have dot: "dot \<noteq> UnreadableEnvFile" by blast
  from Behold_parsed_total[OF assms(2) dot] obtain config2 where
    b2: "Behold L environ dot args fs1 config = Inr (fs1, config2)" by blast
  note R1 = Behold_result[OF assms(1)]
  note R2 = Behold_result[OF b2]
  have d: "map decl config2 = map decl config1" using R1 R2 by simp
  have len: "length config1 = length config" using R1 by (metis length_map)
  have v: "\<forall>j<length config1. Value (config2 ! j) = Value (config1 ! j)"
  proof (intro allI impI)
    fix j assume "j < length config1"
    with len have j: "j < length config" by simp
    show "Value (config2 ! j) = Value (config1 ! j)"
    proof (cases "containerFor fs config j ?ef")
      case None
      then have "containerFor fs1 config j ?ef = None"
        by (simp add: containerFor_parsed[OF assms(2), of config j ?ef fs])
      with None R1 R2 j show ?thesis by simp
    next
      case (Some c)
      then have c2: "containerFor fs1 config j ?ef = Some (setFlagValue None c)"
        by (simp add: containerFor_parsed[OF assms(2), of config j ?ef fs])
      from Behold_New_Some[OF assms(1) Some] obtain fsx configx where
        "New L fs config j ?ef = Inr (Inr c, fsx, configx)" by blast
      with assms(3) j have f1: "snd (GetFlagValue L fs1 c) = False" by blast
      have f2: "snd (GetFlagValue L fs1 (setFlagValue None c)) = False"
        by (rule GetFlagValue_nil) (simp add: setFlagValue_accessors)
      from R1 j Some have "Value (config1 ! j) =
          precedence (GetFlagValue L fs1 c) (GetEnvFileValue L c) (GetEnvValue L environ c)
            (GetDefaultValue L c)" by simp
      moreover from R2 j c2 have "Value (config2 ! j) =
          precedence (GetFlagValue L fs1 (setFlagValue None c)) (GetEnvFileValue L c)
            (GetEnvValue L environ c) (GetDefaultValue L c)"
        by (simp add: setFlagValue_accessors)
      ultimately show ?thesis
        using precedence_absent_flag[OF f1 f2] by simp
    qed
  qed
  from config_eqI[OF d v] b2 show ?thesis by simp
qed

theorem Behold_second_pass_same_witness:
  "Behold stdlib [''HOST'' \<mapsto> ''example.com:3000''] NoEnvFile [Positional ''serve''] freshFlags HostConfig
     = Inr (\<lparr>formal = [(''host'', VString ''localhost:8080'')], parsed = True\<rparr>,
            [\<lparr>Name = ''Host'', CanSet = True, Type = GoString,
               Tag = mkTag ''host'' ''HOST'' ''localhost:8080'',
               Value = VString ''example.com:3000''\<rparr>])
   \<and> Behold stdlib [''HOST'' \<mapsto> ''example.com:3000''] NoEnvFile [Positional ''serve'']
       \<lparr>formal = [(''host'', VString ''localhost:8080'')], parsed = True\<rparr> HostConfig
     = Inr (\<lparr>formal = [(''host'', VString ''localhost:8080'')], parsed = True\<rparr>,
            [\<lparr>Name = ''Host'', CanSet = True, Type = GoString,
               Tag = mkTag ''host'' ''HOST'' ''localhost:8080'',
               Value = VString ''example.com:3000''\<rparr>])"
proof -
  let ?fs1 = "\<lparr>formal = [(''host'', VString ''localhost:8080'')], parsed = True\<rparr> :: (rat, gtime) FlagSet"
  have b: "Behold stdlib [''HOST'' \<mapsto> ''example.com:3000''] NoEnvFile [Positional ''serve''] freshFlags HostConfig
     = Inr (?fs1,
            [\<lparr>Name = ''Host'', CanSet = True, Type = GoString,
               Tag = mkTag ''host'' ''HOST'' ''localhost:8080'',
               Value = VString ''example.com:3000''\<rparr>])"
    by code_simp
  have p: "parsed ?fs1" by simp
  have n: "\<forall>i<length HostConfig. \<forall>c fsx configx.
           New stdlib freshFlags HostConfig i (envFileOf NoEnvFile) = Inr (Inr c, fsx, configx)
             \<longrightarrow> \<not> snd (GetFlagValue stdlib ?fs1 c)"
    by (auto simp: HostConfig_def New_def NewString_def newContainer_def newBaseContainer_def
        freshFlags_def flag_Var_def mkTag_def Tag_Lookup_def Tag_Get_def TagFlagName_def
        TagDefaultValue_def deref_def split: if_splits)
  from Behold_second_pass_same[OF b p n] b show ?thesis by simp
qed

text \<open>
  Without arguments on the command line the first pass leaves the flags registered but
  not parsed, and the second pass stops in the registration of the first flag.
\<close>

lemma Behold_twice_without_arguments:
  "Behold stdlib Map.empty NoEnvFile [] freshFlags HostConfig
     = Inr (\<lparr>formal = [(''host'', VString ''localhost:8080'')], parsed = False\<rparr>,
            [\<lparr>Name = ''Host'', CanSet = True, Type = GoString,
               Tag = mkTag ''host'' ''HOST'' ''localhost:8080'',
               Value = VString ''localhost:8080''\<rparr>])
   \<and> Behold stdlib Map.empty NoEnvFile []
       \<lparr>formal = [(''host'', VString ''localhost:8080'')], parsed = False\<rparr> HostConfig
     = Inl (PanicFlagRedefined ''host'')"
  by code_simp

text \<open>
  Claim C10. A field for which \<open>New\<close> returns an error (it cannot be set, it has no
  \<open>flag\<close> tag, or its type is not supported) is the same after the pass as before it:
  nothing is written to it, not even a default.
\<close>

theorem Behold_failed_field_untouched:
  assumes "Behold L environ dot args fs config = Inr (fs', config')"
    and "i < length config"
    and "\<not> CanSet (config ! i) \<or> Tag_Lookup (Tag (config ! i)) TagFlagName = None
           \<or> \<not> supported (Type (config ! i))"
  shows "(\<exists>e. New L fs config i (envFileOf dot) = Inr (Inl e, fs, config))
           \<and> config' ! i = config ! i"
proof -
  from assms(3) have c: "containerFor fs config i (envFileOf dot) = None"
    using containerFor_Some_iff[of fs config i "envFileOf dot"] by (cases "containerFor fs config i (envFileOf dot)") auto
  note A = Behold_New_None[OF assms(1,2) c]
  from Behold_result[OF assms(1)] assms(2) c
  have v: "Value (config' ! i) = Value (config ! i)"
    and d: "map decl config' = map decl config" by auto
  from d have "length config' = length config" by (metis length_map)
  with d assms(2) have "decl (config' ! i) = decl (config ! i)" by (metis nth_map)
  with v have "config' ! i = config ! i" by (simp add: decl_def)
  with A show ?thesis by blast
qed

theorem Behold_failed_field_untouched_witness:
  "Behold stdlib Map.empty NoEnvFile [] freshFlags MixedConfig
     = Inr (\<lparr>formal = [(''host'', VString ''localhost:8080'')], parsed = False\<rparr>,
            [\<lparr>Name = ''Host'', CanSet = True, Type = GoString,
               Tag = mkTag ''host'' ''HOST'' ''localhost:8080'',
               Value = VString ''localhost:8080''\<rparr>,
             MixedConfig ! 1, MixedConfig ! 2])
   \<and> 2 < length MixedConfig
   \<and> Tag_Lookup (Tag (MixedConfig ! 2)) TagFlagName = None
   \<and> (\<exists>e. New stdlib freshFlags MixedConfig 2 (envFileOf NoEnvFile)
              = Inr (Inl e, freshFlags, MixedConfig))"
proof -
  have b: "Behold stdlib Map.empty NoEnvFile [] freshFlags MixedConfig
     = Inr (\<lparr>formal = [(''host'', VString ''localhost:8080'')], parsed = False\<rparr>,
            [\<lparr>Name = ''Host'', CanSet = True, Type = GoString,
               Tag = mkTag ''host'' ''HOST'' ''localhost:8080'',
               Value = VString ''localhost:8080''\<rparr>,
             MixedConfig ! 1, MixedConfig ! 2])"
    by code_simp
  have h2: "2 < length MixedConfig" by (simp add: MixedConfig_def)
  have h3: "Tag_Lookup (Tag (MixedConfig ! 2)) TagFlagName = None"
    by (simp add: MixedConfig_def Tag_Lookup_def TagFlagName_def)
  then have h3': "\<not> CanSet (MixedConfig ! 2) \<or> Tag_Lookup (Tag (MixedConfig ! 2)) TagFlagName = None
           \<or> \<not> supported (Type (MixedConfig ! 2))" by simp
  from Behold_failed_field_untouched[OF b h2 h3'] b h2 h3 show ?thesis by simp
qed

end
